theory Spec2Isabelle
  imports Complex_Main "HOL-Library.Char_ord" "HOL-Library.List_Lexorder"
begin

section \<open>cbsummary: the REST client and the report assembly\<close>

text \<open>
  A shallow embedding of the cbsummary command-line tool: the REST client
  (\<^verbatim>\<open>executeRequest\<close>, \<^verbatim>\<open>executeGet\<close>, \<^verbatim>\<open>GetPoolsData\<close>,
  \<^verbatim>\<open>GetPoolsDefaultData\<close> and the error types with their \<^verbatim>\<open>Error()\<close> methods) and
  \<^verbatim>\<open>main\<close> with its two loops, the report shapes and the CSV and JSON output.

  What lies outside the repository is a field of the record \<open>env\<close>: the network behind
  \<^verbatim>\<open>http.Client.Do\<close>, the JSON decoders of \<^verbatim>\<open>encoding/json\<close>, the file system and
  the clock. The requests handed to \<^verbatim>\<open>client.Do\<close> are collected, in order, in a list
  that every function takes and returns.
\<close>

subsection \<open>Strings and the formatting verbs of fmt\<close>

definition tab :: string where
  "tab = [CHR 0x09]"

definition newline :: string where
  "newline = [CHR 0x0A]"

definition dquote :: string where
  "dquote = [CHR 0x22]"

text \<open>Decimal digits of a natural number, most significant first.\<close>

fun decimal :: "nat \<Rightarrow> string" where
  "decimal n =
     (if n < 10 then [''0123456789'' ! n]
      else decimal (n div 10) @ [''0123456789'' ! (n mod 10)])"

declare decimal.simps [simp del]

text \<open>The verb \<^verbatim>\<open>%d\<close> on a Go \<^verbatim>\<open>int\<close>.\<close>

definition fmt_d :: "int \<Rightarrow> string" where
  "fmt_d i = (if i < 0 then ''-'' @ decimal (nat (- i)) else decimal (nat i))"

text \<open>\<^verbatim>\<open>strings.Join\<close> and \<^verbatim>\<open>strings.HasPrefix\<close>.\<close>

fun Join :: "string list \<Rightarrow> string \<Rightarrow> string" where
  "Join [] sep = ''''"
| "Join [x] sep = x"
| "Join (x # y # ys) sep = x @ sep @ Join (y # ys) sep"

definition HasPrefix :: "string \<Rightarrow> string \<Rightarrow> bool" where
  "HasPrefix s p = (take (length p) s = p)"

subsection \<open>64-bit floating point numbers\<close>

text \<open>
  A finite IEEE-754 binary64 value is \<open>(-1)\<^sup>s * m * 2\<^sup>e\<close> with \<open>m < 2\<^sup>5\<^sup>3\<close> and
  \<open>-1074 \<le> e \<le> 971\<close>; the sign is kept apart, so that negative zero is a value.
  NaN and the infinities are left out: \<^verbatim>\<open>encoding/json\<close> refuses a number that is out of
  range, and a finite number divided by 1024 is finite.
\<close>

datatype float64 = Float64 (negative: bool) (mantissa: nat) (exponent: int)

definition finite64 :: "float64 \<Rightarrow> bool" where
  "finite64 x = (mantissa x < 2 ^ 53 \<and> - 1074 \<le> exponent x \<and> exponent x \<le> 971)"

definition magnitude :: "float64 \<Rightarrow> rat" where
  "magnitude x =
     (if 0 \<le> exponent x then of_nat (mantissa x) * 2 ^ nat (exponent x)
      else of_nat (mantissa x) / 2 ^ nat (- exponent x))"

definition valof :: "float64 \<Rightarrow> rat" where
  "valof x = (if negative x then - magnitude x else magnitude x)"

text \<open>The float of a natural number below \<open>2\<^sup>5\<^sup>3\<close>, and the zero value of the type.\<close>

definition float64_of_nat :: "nat \<Rightarrow> float64" where
  "float64_of_nat n = Float64 False n 0"

definition zero64 :: float64 where
  "zero64 = Float64 False 0 0"

text \<open>
  Rounding to the nearest integer, ties to the even one, of \<open>m / 2\<^sup>k\<close>: the rounding
  mode of the floating point division and of \<^verbatim>\<open>strconv\<close>.
\<close>

definition round_shift :: "nat \<Rightarrow> nat \<Rightarrow> nat" where
  "round_shift m k =
     (let q = m div 2 ^ k; r = m mod 2 ^ k in
      if 2 ^ k < 2 * r \<or> (2 * r = 2 ^ k \<and> odd q) then q + 1 else q)"

text \<open>
  \<^verbatim>\<open>x / 1024.0\<close>. The exact quotient is \<open>m * 2\<^sup>e\<^sup>-\<^sup>1\<^sup>0\<close>. It is a binary64 value
  when \<open>e - 10 \<ge> -1074\<close>; below that it lies in the subnormal range, where the values are
  the multiples of \<open>2\<^sup>-\<^sup>1\<^sup>0\<^sup>7\<^sup>4\<close>, and it is rounded to the nearest of them, ties to even.
\<close>

definition div1024 :: "float64 \<Rightarrow> float64" where
  "div1024 x =
     (if - 1074 \<le> exponent x - 10 then Float64 (negative x) (mantissa x) (exponent x - 10)
      else Float64 (negative x)
             (round_shift (mantissa x) (nat (- 1074 - (exponent x - 10)))) (- 1074))"

text \<open>
  The verb \<^verbatim>\<open>%.1f\<close>: \<^verbatim>\<open>strconv\<close> writes the exact decimal expansion of the value and
  rounds it to one digit after the point, ties to even; the sign is written for every
  value whose sign bit is set.
\<close>

definition tenths :: "float64 \<Rightarrow> nat" where
  "tenths x =
     (if 0 \<le> exponent x then 10 * mantissa x * 2 ^ nat (exponent x)
      else round_shift (10 * mantissa x) (nat (- exponent x)))"

definition fmt_f1 :: "float64 \<Rightarrow> string" where
  "fmt_f1 x =
     (if negative x then ''-'' else '''') @
     decimal (tenths x div 10) @ ''.'' @ [''0123456789'' ! (tenths x mod 10)]"

subsection \<open>The error types and their Error methods\<close>

text \<open>
  The errors of the libraries carry the text their \<^verbatim>\<open>Error()\<close> method returns. A
  \<^verbatim>\<open>*url.Error\<close> carries the error it wraps (its field \<^verbatim>\<open>Err\<close>) as well, and an error
  of package \<^verbatim>\<open>crypto/x509\<close> its type, since the type switch of \<^verbatim>\<open>executeRequest\<close> reads
  both. \<open>RestClientError\<close>, \<open>UnknownAuthorityError\<close> and \<open>HttpError\<close> are the
  types of this repository, with their fields in the order of the source.
  (\<^verbatim>\<open>ServiceNotAvailableError\<close> and \<^verbatim>\<open>SSLNotAvailableError\<close> are declared and never
  constructed.)
\<close>

datatype x509_type =
    x509_UnknownAuthorityError
  | x509_CertificateInvalidError
  | x509_ConstraintViolationError
  | x509_HostnameError
  | x509_SystemRootsError
  | x509_UnhandledCriticalExtension

datatype go_error =
    url_Error string go_error
  | x509_Error x509_type string
  | other_error string
  | RestClientError string string go_error
  | UnknownAuthorityError go_error
  | HttpError int string string string

definition StatusOK :: int where "StatusOK = 200"
definition StatusCreated :: int where "StatusCreated = 201"
definition StatusAccepted :: int where "StatusAccepted = 202"
definition StatusBadRequest :: int where "StatusBadRequest = 400"
definition StatusUnauthorized :: int where "StatusUnauthorized = 401"
definition StatusForbidden :: int where "StatusForbidden = 403"
definition StatusInternalServerError :: int where "StatusInternalServerError = 500"

definition no_ssl_verify_guidance :: string where
  "no_ssl_verify_guidance =
     newline @ newline @ ''If you are using self-signed certificates you can '' @
     ''re-run this command with'' @ newline @ ''the --no-ssl-verify flag. Note however that'' @
     '' disabling ssl verification'' @ newline @ ''means that cbbackupmgr will be vulnerable'' @
     '' to man-in-the-middle attacks.'' @ newline @ newline @
     ''For the most secure access to Couchbase'' @
     '' make sure that you have X.509'' @ newline @ ''certificates set up in your cluster and'' @
     '' use the --cacert flag to specify'' @ newline @ ''your client certificate.''"

fun Error :: "go_error \<Rightarrow> string" where
  "Error (url_Error msg err) = msg"
| "Error (x509_Error ty msg) = msg"
| "Error (other_error msg) = msg"
| "Error (RestClientError method url err) =
     ''Rest client error ('' @ method @ '' '' @ url @ ''): '' @ Error err"
| "Error (UnknownAuthorityError err) = Error err @ no_ssl_verify_guidance"
| "Error (HttpError code method resource body) =
     (if code = StatusBadRequest then
        ''Bad request executing '' @ method @ '' '' @ resource @ '' due to '' @ body
      else if code = StatusUnauthorized then
        ''Authentication error executing '' @ dquote @ method @ '' '' @ resource @ dquote @
        '' check username and password''
      else if code = StatusForbidden then body
      else if code = StatusInternalServerError then
        ''Internal server error while executing '' @ dquote @ method @ '' '' @ resource @
        dquote @ '' check the server logs for more details''
      else
        ''Recieved error '' @ fmt_d code @ '' while executing '' @ dquote @ method @ '' '' @
        resource @ dquote)"

subsection \<open>Slices\<close>

text \<open>
  A Go slice is \<^verbatim>\<open>nil\<close> or a sequence. Both have a length and are ranged over alike, but
  \<^verbatim>\<open>encoding/json\<close> writes \<^verbatim>\<open>null\<close> for the first and an array for the second.
\<close>

type_synonym 'a slice = "'a list option"

definition elems :: "'a slice \<Rightarrow> 'a list" where
  "elems s = (case s of None \<Rightarrow> [] | Some xs \<Rightarrow> xs)"

definition len :: "'a slice \<Rightarrow> int" where
  "len s = int (length (elems s))"

subsection \<open>The types decoded from the configuration and from the REST API\<close>

record Cluster =
  Login :: string
  Pass :: string
  Nodes :: "string slice"

record ClusterList =
  Clusters :: "Cluster slice"

text \<open>\<^verbatim>\<open>Pools\<close>: the field \<^verbatim>\<open>Components\<close> is decoded and never read.\<close>

record Pools =
  ImplementationVersion :: string
  IsEnterprise :: bool
  Uuid :: string

text \<open>
  \<^verbatim>\<open>main\<close> reads \<^verbatim>\<open>nodeInfo.SystemStats.CPU_cores_available\<close> and assigns it to a
  \<^verbatim>\<open>float64\<close>. The declaration of \<^verbatim>\<open>SysStats\<close> that is at hand has no such field, so the
  field is taken from that use. Of \<^verbatim>\<open>NodeInfo\<close>, the fields that \<^verbatim>\<open>main\<close> reads are
  kept; the others are decoded and copied with the node in a full report.
\<close>

record SysStats =
  CPU_cores_available :: float64

record NodeInfo =
  Hostname :: string
  MemoryTotal :: float64
  SystemStats :: SysStats
  Version :: string

record HDDStorageInfo =
  Free :: float64
  QuotaTotal :: float64
  Total :: float64
  Used :: float64
  UsedByData :: float64

record RAMStorageInfo =
  QuotaTotal :: float64
  QuotaTotalPerNode :: float64
  QuotaUsed :: float64
  QuotaUsedPerNode :: float64
  Total :: float64
  Used :: float64
  UsedByData :: float64

record ClusterStorageInfo =
  HDD :: HDDStorageInfo
  RAM :: RAMStorageInfo

record PoolsDefault =
  Balanced :: bool
  ClusterName :: string
  FtsMemoryQuota :: int
  IndexMemoryQuota :: int
  MemoryQuota :: int
  Name :: string
  Nodes :: "NodeInfo slice"
  RebalanceStatus :: string
  StorageTotals :: ClusterStorageInfo

subsection \<open>The REST client\<close>

record RestClient =
  secure :: bool
  host :: string
  username :: string
  password :: string

text \<open>
  A request as \<^verbatim>\<open>client.Do\<close> receives it: method, URL and the basic authentication. The
  URL is kept as the string that \<^verbatim>\<open>http.NewRequest\<close> was given.
\<close>

record request =
  Method :: string
  URL :: string
  BasicAuth :: "string \<times> string"

text \<open>
  A response: the status code, and the body as \<^verbatim>\<open>ioutil.ReadAll\<close> returns it, \<open>None\<close>
  when the read fails.
\<close>

record response =
  StatusCode :: int
  Body :: "string option"

text \<open>The struct \<^verbatim>\<open>overlay\<close> that \<^verbatim>\<open>executeRequest\<close> decodes the body of a 403 into.\<close>

record overlay =
  Message :: string
  Permissions :: "string slice"

text \<open>
  A JSON value as \<^verbatim>\<open>encoding/json\<close> builds it from a Go value: a struct gives an object
  with the keys of its field tags, in the order of the fields.
\<close>

datatype json =
    JNull
  | JBool bool
  | JInt int
  | JFloat float64
  | JString string
  | JArray "json list"
  | JObject "(string \<times> json) list"

text \<open>
  The world outside the repository.
  \<^item> \<open>NewRequest\<close>: the error of \<^verbatim>\<open>http.NewRequest\<close> for a method and a URL, if any.
  \<^item> \<open>URL_String\<close>: what \<^verbatim>\<open>req.URL.String()\<close> returns for the request that
    \<^verbatim>\<open>http.NewRequest\<close> builds from a URL. Package \<^verbatim>\<open>net/url\<close> parses the string and
    writes it back from its parts, which need not give the same string: the scheme comes
    back in lower case, a space in the path as \<^verbatim>\<open>%20\<close>.
  \<^item> \<open>Do\<close>: what \<^verbatim>\<open>client.Do\<close> returns for a request, given how many requests were
    sent before it (a node need not answer twice alike).
  \<^item> \<open>DecodePools\<close>, \<open>DecodePoolsDefault\<close>, \<open>DecodeOverlay\<close>: \<^verbatim>\<open>decoder.Decode\<close>
    on a body, into the three types.
  \<^item> \<open>ReadFile\<close>, \<open>Unmarshal\<close>: reading and parsing the configuration file.
  \<^item> \<open>Now\<close>: the default name of the output file, with the time stamp.
  \<^item> \<open>MarshalNodeInfo\<close>: the JSON value that \<^verbatim>\<open>encoding/json\<close> builds for a
    \<^verbatim>\<open>NodeInfo\<close>, whose declaration with its field tags is not at hand in full.
  \<^item> \<open>Indent\<close>: the bytes that \<^verbatim>\<open>json.MarshalIndent\<close> writes for a JSON value with
    the prefix and the indentation that \<^verbatim>\<open>main\<close> passes, or its error.
  \<^item> \<open>WriteFile\<close>: the error of \<^verbatim>\<open>ioutil.WriteFile\<close> for a file name, if any.
\<close>

record env =
  NewRequest :: "string \<Rightarrow> string \<Rightarrow> go_error option"
  URL_String :: "string \<Rightarrow> string"
  Do :: "nat \<Rightarrow> request \<Rightarrow> go_error + response"
  DecodePools :: "string option \<Rightarrow> go_error + Pools"
  DecodePoolsDefault :: "string option \<Rightarrow> go_error + PoolsDefault"
  DecodeOverlay :: "string option \<Rightarrow> go_error + overlay"
  ReadFile :: "string \<Rightarrow> go_error + string"
  Unmarshal :: "string \<Rightarrow> go_error + ClusterList"
  Now :: string
  MarshalNodeInfo :: "NodeInfo \<Rightarrow> json"
  Indent :: "json \<Rightarrow> go_error + string"
  WriteFile :: "string \<Rightarrow> go_error option"

definition CreateRestClient :: "string \<Rightarrow> string \<Rightarrow> string \<Rightarrow> RestClient" where
  "CreateRestClient h u p =
     \<lparr>secure = HasPrefix h ''https://'', host = h, username = u, password = p\<rparr>"

text \<open>
  \<^verbatim>\<open>executeRequest\<close>. The type switch on the error of \<^verbatim>\<open>client.Do\<close> takes the first
  case that matches, in the order of the source; then the status code is classified. The
  errors that it builds name the request by \<^verbatim>\<open>req.URL.String()\<close>, not by the string that
  the request was built from.
\<close>

definition executeRequest ::
  "env \<Rightarrow> request \<Rightarrow> request list \<Rightarrow> (go_error + response) \<times> request list" where
  "executeRequest e req sent =
     (case Do e (length sent) req of
        Inl err \<Rightarrow>
          (Inl (case err of
                  url_Error msg inner \<Rightarrow> inner
                | x509_Error x509_UnknownAuthorityError msg \<Rightarrow> UnknownAuthorityError err
                | x509_Error ty msg \<Rightarrow> err
                | _ \<Rightarrow> RestClientError (Method req) (URL_String e (URL req)) err),
           sent @ [req])
      | Inr resp \<Rightarrow>
          (if StatusCode resp = StatusBadRequest then
             Inl (HttpError (StatusCode resp) (Method req) (URL_String e (URL req))
                    (case Body resp of None \<Rightarrow> ''<no body>'' | Some contents \<Rightarrow> contents))
           else if StatusCode resp = StatusForbidden then
             (case DecodeOverlay e (Body resp) of
                Inl err \<Rightarrow> Inl (HttpError (StatusCode resp) (Method req) (URL_String e (URL req)) [])
              | Inr data \<Rightarrow>
                  Inl (HttpError (StatusCode resp) (Method req) (URL_String e (URL req))
                         (Message data @ '': '' @ Join (elems (Permissions data)) '', '')))
           else if StatusCode resp \<noteq> StatusOK \<and> StatusCode resp \<noteq> StatusAccepted \<and>
                   StatusCode resp \<noteq> StatusCreated then
             Inl (HttpError (StatusCode resp) (Method req) (URL_String e (URL req)) [])
           else Inr resp,
           sent @ [req]))"

definition executeGet ::
  "env \<Rightarrow> RestClient \<Rightarrow> string \<Rightarrow> request list \<Rightarrow> (go_error + response) \<times> request list" where
  "executeGet e r uri sent =
     (case NewRequest e ''GET'' uri of
        Some err \<Rightarrow> (Inl (RestClientError ''GET'' uri err), sent)
      | None \<Rightarrow>
          executeRequest e
            \<lparr>Method = ''GET'', URL = uri, BasicAuth = (username r, password r)\<rparr> sent)"

definition GetPoolsData ::
  "env \<Rightarrow> RestClient \<Rightarrow> request list \<Rightarrow> (go_error + Pools) \<times> request list" where
  "GetPoolsData e r sent =
     (let url = host r @ ''/pools'' in
      case executeGet e r url sent of
        (Inl err, sent') \<Rightarrow> (Inl err, sent')
      | (Inr resp, sent') \<Rightarrow>
          (case DecodePools e (Body resp) of
             Inl err \<Rightarrow> (Inl (RestClientError ''GET'' url err), sent')
           | Inr data \<Rightarrow> (Inr data, sent')))"

definition GetPoolsDefaultData ::
  "env \<Rightarrow> RestClient \<Rightarrow> request list \<Rightarrow> (go_error + PoolsDefault) \<times> request list" where
  "GetPoolsDefaultData e r sent =
     (let url = host r @ ''/pools/default'' in
      case executeGet e r url sent of
        (Inl err, sent') \<Rightarrow> (Inl err, sent')
      | (Inr resp, sent') \<Rightarrow>
          (case DecodePoolsDefault e (Body resp) of
             Inl err \<Rightarrow> (Inl (RestClientError ''GET'' url err), sent')
           | Inr resultMap \<Rightarrow> (Inr resultMap, sent')))"

subsection \<open>The report types of main\<close>

record BriefNode =
  Cores :: float64
  RAM :: float64
  Name :: string
  Version :: string

record BriefCluster =
  Nodes :: "BriefNode slice"
  Size :: int
  UUID :: string

text \<open>
  A Go \<^verbatim>\<open>map[string]int\<close> as an association list with distinct keys. Reading a key that
  is absent gives 0, as in Go.
\<close>

type_synonym version_map = "(string \<times> int) list"

fun lookup :: "version_map \<Rightarrow> string \<Rightarrow> int" where
  "lookup [] k = 0"
| "lookup ((k', v) # m) k = (if k' = k then v else lookup m k)"

fun store :: "version_map \<Rightarrow> string \<Rightarrow> int \<Rightarrow> version_map" where
  "store [] k v = [(k, v)]"
| "store ((k', v') # m) k v = (if k' = k then (k, v) # m else (k', v') # store m k v)"

record ClusterSummary =
  ImplementationVersion :: string
  IsEnterprise :: bool
  Uuid :: string
  Balanced :: bool
  ClusterName :: string
  FtsMemoryQuota :: int
  IndexMemoryQuota :: int
  MemoryQuota :: int
  Name :: string
  NodeCount :: int
  NodeVersions :: version_map
  Nodes :: "NodeInfo slice"
  RebalanceStatus :: string
  StorageTotals :: ClusterStorageInfo

record ClusterError =
  TheCluster :: Cluster
  ErrMsg :: string

text \<open>
  An element of \<^verbatim>\<open>Clusters []interface{}\<close>: \<^verbatim>\<open>nil\<close> as \<^verbatim>\<open>make\<close> leaves it, or a
  pointer to one of the three report types.
\<close>

datatype cluster_record =
    NilRecord
  | FullRecord ClusterSummary
  | BriefRecord BriefCluster
  | ErrorRecord ClusterError

record SummaryInfo =
  NumClusters :: int
  TotalNumNodes :: int
  NodeVersions :: version_map
  Clusters :: "cluster_record list"

record flags =
  CONFIG_FILE :: string
  OUTPUT_FILE :: string
  HELP :: bool
  FULL :: bool
  CSV :: bool

subsection \<open>main: the loop over the nodes of a cluster\<close>

text \<open>The variables of \<^verbatim>\<open>main\<close> that the loop over the nodes reads and writes.\<close>

record loop_state =
  thisCluster :: "ClusterSummary option"
  briefCluster :: "BriefCluster option"
  cerr :: "go_error option"
  clusterSummary :: SummaryInfo
  sent :: "request list"

text \<open>
  The loop of a full report over \<^verbatim>\<open>poolsDefaults.Nodes\<close>: it counts each version in the
  map of the cluster and in the map of the summary.
\<close>

fun fullVersions ::
  "version_map \<times> version_map \<Rightarrow> NodeInfo list \<Rightarrow> version_map \<times> version_map" where
  "fullVersions (nodeVersions, summaryVersions) [] = (nodeVersions, summaryVersions)"
| "fullVersions (nodeVersions, summaryVersions) (nodeInfo # rest) =
     fullVersions
       (store nodeVersions (NodeInfo.Version nodeInfo)
          (lookup nodeVersions (NodeInfo.Version nodeInfo) + 1),
        store summaryVersions (NodeInfo.Version nodeInfo)
          (lookup summaryVersions (NodeInfo.Version nodeInfo) + 1))
       rest"

text \<open>The loop of a brief report that counts the versions in the map of the summary.\<close>

fun briefVersions :: "version_map \<Rightarrow> NodeInfo list \<Rightarrow> version_map" where
  "briefVersions summaryVersions [] = summaryVersions"
| "briefVersions summaryVersions (nodeInfo # rest) =
     briefVersions
       (store summaryVersions (NodeInfo.Version nodeInfo)
          (lookup summaryVersions (NodeInfo.Version nodeInfo) + 1))
       rest"

text \<open>
  The body of the loop that fills \<^verbatim>\<open>nodes\<close>, and the loop: \<^verbatim>\<open>nodes[curNode] = *node\<close>
  for each node in turn. \<^verbatim>\<open>nodes\<close> is made with the length of \<^verbatim>\<open>poolsDefaults.Nodes\<close>,
  so \<^verbatim>\<open>curNode\<close> is always in range.
\<close>

definition newBriefNode :: "NodeInfo \<Rightarrow> BriefNode" where
  "newBriefNode nodeInfo =
     \<lparr>Cores = CPU_cores_available (SystemStats nodeInfo),
      RAM = div1024 (div1024 (div1024 (MemoryTotal nodeInfo))),
      BriefNode.Name = Hostname nodeInfo,
      BriefNode.Version = NodeInfo.Version nodeInfo\<rparr>"

definition zeroBriefNode :: BriefNode where
  "zeroBriefNode = \<lparr>Cores = zero64, RAM = zero64, BriefNode.Name = [], BriefNode.Version = []\<rparr>"

fun fillNodes :: "BriefNode list \<Rightarrow> nat \<Rightarrow> NodeInfo list \<Rightarrow> BriefNode list" where
  "fillNodes nodes curNode [] = nodes"
| "fillNodes nodes curNode (nodeInfo # rest) =
     fillNodes (nodes[curNode := newBriefNode nodeInfo]) (curNode + 1) rest"

text \<open>
  The two branches of the loop body once both calls have succeeded, each with the record
  it builds (\<^verbatim>\<open>new(ClusterSummary)\<close> or \<^verbatim>\<open>new(BriefCluster)\<close>, and the assignments to
  its fields). The index \<open>cnum\<close> is that of the cluster in the configuration, and \<^verbatim>\<open>Clusters\<close> was made with the
  length of the configuration, so the assignment to \<^verbatim>\<open>Clusters[cnum]\<close> is in range.
\<close>

definition newClusterSummary :: "Pools \<Rightarrow> PoolsDefault \<Rightarrow> version_map \<Rightarrow> ClusterSummary" where
  "newClusterSummary pools poolsDefaults nodeVersions =
     \<lparr>ClusterSummary.ImplementationVersion = Pools.ImplementationVersion pools,
      ClusterSummary.IsEnterprise = Pools.IsEnterprise pools,
      ClusterSummary.Uuid = Pools.Uuid pools,
      ClusterSummary.Balanced = PoolsDefault.Balanced poolsDefaults,
      ClusterSummary.ClusterName = PoolsDefault.ClusterName poolsDefaults,
      ClusterSummary.FtsMemoryQuota = PoolsDefault.FtsMemoryQuota poolsDefaults,
      ClusterSummary.IndexMemoryQuota = PoolsDefault.IndexMemoryQuota poolsDefaults,
      ClusterSummary.MemoryQuota = PoolsDefault.MemoryQuota poolsDefaults,
      ClusterSummary.Name = PoolsDefault.Name poolsDefaults,
      NodeCount = len (PoolsDefault.Nodes poolsDefaults),
      ClusterSummary.NodeVersions = nodeVersions,
      ClusterSummary.Nodes = PoolsDefault.Nodes poolsDefaults,
      ClusterSummary.RebalanceStatus = PoolsDefault.RebalanceStatus poolsDefaults,
      ClusterSummary.StorageTotals = PoolsDefault.StorageTotals poolsDefaults\<rparr>"

definition fullReport :: "nat \<Rightarrow> Pools \<Rightarrow> PoolsDefault \<Rightarrow> loop_state \<Rightarrow> loop_state" where
  "fullReport cnum pools poolsDefaults st =
     (let summary = clusterSummary st;
          (nodeVersions, summaryVersions) =
             fullVersions ([], SummaryInfo.NodeVersions summary)
               (elems (PoolsDefault.Nodes poolsDefaults));
          this = newClusterSummary pools poolsDefaults nodeVersions
      in st\<lparr>thisCluster := Some this,
            clusterSummary := summary
              \<lparr>SummaryInfo.NodeVersions := summaryVersions,
               Clusters := (Clusters summary)[cnum := FullRecord this],
               TotalNumNodes := TotalNumNodes summary + len (PoolsDefault.Nodes poolsDefaults)\<rparr>\<rparr>)"

definition newBriefCluster :: "Pools \<Rightarrow> PoolsDefault \<Rightarrow> BriefCluster" where
  "newBriefCluster pools poolsDefaults =
     (let nodes =
            fillNodes (replicate (length (elems (PoolsDefault.Nodes poolsDefaults))) zeroBriefNode)
              0 (elems (PoolsDefault.Nodes poolsDefaults))
      in \<lparr>BriefCluster.Nodes = Some nodes, Size = int (length nodes), UUID = Pools.Uuid pools\<rparr>)"

definition briefReport :: "nat \<Rightarrow> Pools \<Rightarrow> PoolsDefault \<Rightarrow> loop_state \<Rightarrow> loop_state" where
  "briefReport cnum pools poolsDefaults st =
     (let summary = clusterSummary st;
          brief = newBriefCluster pools poolsDefaults
      in st\<lparr>briefCluster := Some brief,
            clusterSummary := summary
              \<lparr>Clusters := (Clusters summary)[cnum := BriefRecord brief],
               TotalNumNodes := TotalNumNodes summary + len (PoolsDefault.Nodes poolsDefaults),
               SummaryInfo.NodeVersions :=
                 briefVersions (SummaryInfo.NodeVersions summary)
                   (elems (PoolsDefault.Nodes poolsDefaults))\<rparr>\<rparr>)"

text \<open>
  The loop over \<^verbatim>\<open>cluster.Nodes\<close>. A failed call stores its error in \<^verbatim>\<open>cerr\<close> and goes
  on with the next node (\<^verbatim>\<open>continue\<close>); after two successful calls the report of the
  cluster is built and the loop is left (\<^verbatim>\<open>break\<close>). The messages that
  \<^verbatim>\<open>fmt.Printf\<close> writes to the standard output on the way are not modelled.
\<close>

fun nodeLoop ::
  "env \<Rightarrow> bool \<Rightarrow> nat \<Rightarrow> Cluster \<Rightarrow> string list \<Rightarrow> loop_state \<Rightarrow> loop_state" where
  "nodeLoop e full cnum cluster [] st = st"
| "nodeLoop e full cnum cluster (node # rest) st =
     (case GetPoolsData e (CreateRestClient node (Login cluster) (Pass cluster)) (sent st) of
        (Inl err, sent1) \<Rightarrow>
          nodeLoop e full cnum cluster rest (st\<lparr>cerr := Some err, sent := sent1\<rparr>)
      | (Inr pools, sent1) \<Rightarrow>
          (case GetPoolsDefaultData e (CreateRestClient node (Login cluster) (Pass cluster))
                  sent1 of
             (Inl err, sent2) \<Rightarrow>
               nodeLoop e full cnum cluster rest (st\<lparr>cerr := Some err, sent := sent2\<rparr>)
           | (Inr poolsDefaults, sent2) \<Rightarrow>
               (if full then fullReport cnum pools poolsDefaults (st\<lparr>sent := sent2\<rparr>)
                else briefReport cnum pools poolsDefaults (st\<lparr>sent := sent2\<rparr>))))"

subsection \<open>main: the loop over the clusters\<close>

text \<open>
  A round of the loop over the clusters declares \<^verbatim>\<open>thisCluster\<close>, \<^verbatim>\<open>briefCluster\<close> and
  \<^verbatim>\<open>cerr\<close>, all \<^verbatim>\<open>nil\<close>.
\<close>

definition freshState :: "SummaryInfo \<times> request list \<Rightarrow> loop_state" where
  "freshState s =
     \<lparr>thisCluster = None, briefCluster = None, cerr = None,
      clusterSummary = fst s, sent = snd s\<rparr>"

text \<open>
  One round of the loop over the clusters: the loop over the nodes, and then the error
  record when both pointers are still \<^verbatim>\<open>nil\<close>.
\<close>

definition clusterStep ::
  "env \<Rightarrow> bool \<Rightarrow> nat \<Rightarrow> Cluster \<Rightarrow> SummaryInfo \<times> request list \<Rightarrow>
   SummaryInfo \<times> request list" where
  "clusterStep e full cnum cluster s =
     (let st = nodeLoop e full cnum cluster (elems (Cluster.Nodes cluster)) (freshState s)
      in if thisCluster st = None \<and> briefCluster st = None then
           (let errorStatus =
                  \<lparr>TheCluster = cluster,
                   ErrMsg = (case cerr st of Some err \<Rightarrow> Error err | None \<Rightarrow> ''Unknown Error'')\<rparr>
            in ((clusterSummary st)
                  \<lparr>Clusters := (Clusters (clusterSummary st))[cnum := ErrorRecord errorStatus]\<rparr>,
                sent st))
         else (clusterSummary st, sent st))"

fun clusterLoop ::
  "env \<Rightarrow> bool \<Rightarrow> nat \<Rightarrow> Cluster list \<Rightarrow> SummaryInfo \<times> request list \<Rightarrow>
   SummaryInfo \<times> request list" where
  "clusterLoop e full cnum [] s = s"
| "clusterLoop e full cnum (cluster # rest) s =
     clusterLoop e full (cnum + 1) rest (clusterStep e full cnum cluster s)"

definition newSummary :: "Cluster slice \<Rightarrow> SummaryInfo" where
  "newSummary clusters =
     \<lparr>NumClusters = len clusters, TotalNumNodes = 0, SummaryInfo.NodeVersions = [],
      Clusters = replicate (length (elems clusters)) NilRecord\<rparr>"

text \<open>The summary after the loop over the clusters, and the requests sent on the way.\<close>

definition summarize :: "env \<Rightarrow> bool \<Rightarrow> Cluster slice \<Rightarrow> SummaryInfo \<times> request list" where
  "summarize e full clusters = clusterLoop e full 0 (elems clusters) (newSummary clusters, [])"

subsection \<open>main: the CSV output\<close>

text \<open>
  A line of the CSV output for one node of a brief report. Go compares strings byte by
  byte, a proper prefix being the smaller: the lexicographic order on \<open>string\<close>.
\<close>

definition csvRow :: "nat \<Rightarrow> BriefCluster \<Rightarrow> BriefNode \<Rightarrow> string" where
  "csvRow cnum cluster node =
     (if BriefNode.Version node < ''6.5'' then
        fmt_d (int cnum) @ tab @ UUID cluster @ tab @ fmt_d (Size cluster) @ tab @
        BriefNode.Name node @ tab @ ''N/A'' @ tab @ fmt_f1 (BriefNode.RAM node) @ newline
      else
        fmt_d (int cnum) @ tab @ UUID cluster @ tab @ fmt_d (Size cluster) @ tab @
        BriefNode.Name node @ tab @ fmt_f1 (Cores node) @ tab @ fmt_f1 (BriefNode.RAM node) @
        newline)"

definition csvHeader :: string where
  "csvHeader =
     ''cluster_num'' @ tab @ ''cluster_uuid'' @ tab @ ''cluster_size'' @ tab @ ''hostname'' @
     tab @ ''cpu_cores'' @ tab @ ''RAM'' @ newline"

text \<open>The loop over \<^verbatim>\<open>clusterSummary.Clusters\<close>: only a \<^verbatim>\<open>*BriefCluster\<close> writes lines.\<close>

fun csvRows :: "nat \<Rightarrow> cluster_record list \<Rightarrow> string" where
  "csvRows cnum [] = []"
| "csvRows cnum (BriefRecord cluster # rest) =
     concat (map (csvRow cnum cluster) (elems (BriefCluster.Nodes cluster))) @
     csvRows (cnum + 1) rest"
| "csvRows cnum (icluster # rest) = csvRows (cnum + 1) rest"

definition csvBody :: "SummaryInfo \<Rightarrow> string" where
  "csvBody summary = csvHeader @ csvRows 0 (Clusters summary)"

subsection \<open>main: the JSON output\<close>

text \<open>
  The JSON values of the report types, from their field tags. A \<^verbatim>\<open>nil\<close> slice and a
  \<^verbatim>\<open>nil\<close> interface give \<^verbatim>\<open>null\<close>; the keys of a map are written in sorted order; a
  field whose tag has no name (\<^verbatim>\<open>QuotaTotal\<close> of \<^verbatim>\<open>HDDStorageInfo\<close>) keeps the name of the
  field.
\<close>

definition marshalSlice :: "('a \<Rightarrow> json) \<Rightarrow> 'a slice \<Rightarrow> json" where
  "marshalSlice f s = (case s of None \<Rightarrow> JNull | Some xs \<Rightarrow> JArray (map f xs))"

definition marshalMap :: "version_map \<Rightarrow> json" where
  "marshalMap m = JObject (map (\<lambda>kv. (fst kv, JInt (snd kv))) (sort_key fst m))"

definition marshalCluster :: "Cluster \<Rightarrow> json" where
  "marshalCluster c =
     JObject [(''login'', JString (Login c)), (''pass'', JString (Pass c)),
              (''nodes'', marshalSlice JString (Cluster.Nodes c))]"

definition marshalClusterError :: "ClusterError \<Rightarrow> json" where
  "marshalClusterError x =
     JObject [(''error_with_cluster'', marshalCluster (TheCluster x)),
              (''error_message'', JString (ErrMsg x))]"

definition marshalBriefNode :: "BriefNode \<Rightarrow> json" where
  "marshalBriefNode n =
     JObject [(''cpu_cores_available'', JFloat (Cores n)), (''mem_total'', JFloat (BriefNode.RAM n)),
              (''hostname'', JString (BriefNode.Name n)),
              (''version'', JString (BriefNode.Version n))]"

definition marshalBriefCluster :: "BriefCluster \<Rightarrow> json" where
  "marshalBriefCluster b =
     JObject [(''nodes'', marshalSlice marshalBriefNode (BriefCluster.Nodes b)),
              (''cluster_size'', JInt (Size b)), (''cluster_uuid'', JString (UUID b))]"

definition marshalHDD :: "HDDStorageInfo \<Rightarrow> json" where
  "marshalHDD h =
     JObject [(''free'', JFloat (HDDStorageInfo.Free h)),
              (''QuotaTotal'', JFloat (HDDStorageInfo.QuotaTotal h)),
              (''total'', JFloat (HDDStorageInfo.Total h)),
              (''used'', JFloat (HDDStorageInfo.Used h)),
              (''usedByData'', JFloat (HDDStorageInfo.UsedByData h))]"

definition marshalRAM :: "RAMStorageInfo \<Rightarrow> json" where
  "marshalRAM r =
     JObject [(''quotaTotal'', JFloat (RAMStorageInfo.QuotaTotal r)),
              (''quotaTotalPerNode'', JFloat (QuotaTotalPerNode r)),
              (''quotaUsed'', JFloat (QuotaUsed r)),
              (''quataUsedPerNode'', JFloat (QuotaUsedPerNode r)),
              (''total'', JFloat (RAMStorageInfo.Total r)),
              (''used'', JFloat (RAMStorageInfo.Used r)),
              (''usedByData'', JFloat (RAMStorageInfo.UsedByData r))]"

definition marshalClusterSummary :: "env \<Rightarrow> ClusterSummary \<Rightarrow> json" where
  "marshalClusterSummary e c =
     JObject [(''implementationVersion'', JString (ClusterSummary.ImplementationVersion c)),
              (''isEnterprise'', JBool (ClusterSummary.IsEnterprise c)),
              (''uuid'', JString (ClusterSummary.Uuid c)),
              (''balanced'', JBool (ClusterSummary.Balanced c)),
              (''clusterName'', JString (ClusterSummary.ClusterName c)),
              (''ftsMemoryQuota'', JInt (ClusterSummary.FtsMemoryQuota c)),
              (''indexMemoryQuota'', JInt (ClusterSummary.IndexMemoryQuota c)),
              (''memoryQuota'', JInt (ClusterSummary.MemoryQuota c)),
              (''name'', JString (ClusterSummary.Name c)),
              (''nodeCount'', JInt (NodeCount c)),
              (''nodeVersions'', marshalMap (ClusterSummary.NodeVersions c)),
              (''nodes'', marshalSlice (MarshalNodeInfo e) (ClusterSummary.Nodes c)),
              (''rebalanceStatus'', JString (ClusterSummary.RebalanceStatus c)),
              (''storageTotals'',
                 JObject [(''hdd'', marshalHDD (HDD (ClusterSummary.StorageTotals c))),
                          (''ram'', marshalRAM (ClusterStorageInfo.RAM (ClusterSummary.StorageTotals c)))])]"

fun marshalRecord :: "env \<Rightarrow> cluster_record \<Rightarrow> json" where
  "marshalRecord e NilRecord = JNull"
| "marshalRecord e (FullRecord c) = marshalClusterSummary e c"
| "marshalRecord e (BriefRecord b) = marshalBriefCluster b"
| "marshalRecord e (ErrorRecord x) = marshalClusterError x"

definition marshalSummaryInfo :: "env \<Rightarrow> SummaryInfo \<Rightarrow> json" where
  "marshalSummaryInfo e s =
     JObject [(''#clusters'', JInt (NumClusters s)), (''#nodes'', JInt (TotalNumNodes s)),
              (''#nodeVersions'', marshalMap (SummaryInfo.NodeVersions s)),
              (''clusters'', JArray (map (marshalRecord e) (Clusters s)))]"

subsection \<open>main\<close>

text \<open>
  How a run ends: one constructor for each \<^verbatim>\<open>return\<close> of \<^verbatim>\<open>main\<close>.
  \<^item> \<open>Usage\<close>: the usage text was printed.
  \<^item> \<open>CSVNotAvailable\<close>: \<^verbatim>\<open>CSV format is not available for full reports.\<close> was printed.
  \<^item> \<open>NoConfiguration\<close>: \<^verbatim>\<open>You must specify a configuration file.\<close> was printed.
  \<^item> \<open>ReadFailed\<close>, \<open>ParseFailed\<close>: the configuration file could not be read or
    parsed, and the error was printed.
  \<^item> \<open>MarshalFailed\<close>, \<open>WriteFailed\<close>: the JSON output could not be built, or the
    output file not be written, and the error was printed.
  \<^item> \<open>Wrote\<close>: the output file of that name was written with that content.
\<close>

datatype outcome =
    Usage
  | CSVNotAvailable
  | NoConfiguration
  | ReadFailed go_error
  | ParseFailed go_error
  | MarshalFailed go_error
  | WriteFailed string go_error
  | Wrote string string

definition writeOutput :: "env \<Rightarrow> string \<Rightarrow> string \<Rightarrow> outcome" where
  "writeOutput e output_file body =
     (case WriteFile e output_file of
        Some err \<Rightarrow> WriteFailed output_file err
      | None \<Rightarrow> Wrote output_file body)"

text \<open>
  \<^verbatim>\<open>main\<close>, from the parsed flags: how the run ends, and the requests it has sent.
  (\<^verbatim>\<open>flag.String\<close> never returns \<^verbatim>\<open>nil\<close>, so the tests of the pointers against
  \<^verbatim>\<open>nil\<close> are left out.)
\<close>

definition main :: "env \<Rightarrow> flags \<Rightarrow> outcome \<times> request list" where
  "main e f =
     (if HELP f \<or> length (CONFIG_FILE f) = 0 then (Usage, [])
      else if FULL f \<and> CSV f then (CSVNotAvailable, [])
      else if length (CONFIG_FILE f) = 0 then (NoConfiguration, [])
      else
        (let output_file = (if length (OUTPUT_FILE f) = 0 then Now e else OUTPUT_FILE f) in
         case ReadFile e (CONFIG_FILE f) of
           Inl err \<Rightarrow> (ReadFailed err, [])
         | Inr config \<Rightarrow>
             (case Unmarshal e config of
                Inl err \<Rightarrow> (ParseFailed err, [])
              | Inr clusters \<Rightarrow>
                  (let s = summarize e (FULL f) (ClusterList.Clusters clusters) in
                   if CSV f then (writeOutput e output_file (csvBody (fst s)), snd s)
                   else
                     (case Indent e (marshalSummaryInfo e (fst s)) of
                        Inl err \<Rightarrow> (MarshalFailed err, snd s)
                      | Inr body \<Rightarrow> (writeOutput e output_file body, snd s))))))"

subsection \<open>Observations on the loops\<close>

text \<open>
  The two calls that the body of the loop over the nodes makes for one node: the
  payloads of both when both succeed, and else the error of the call that failed.
\<close>

definition pollNode ::
  "env \<Rightarrow> Cluster \<Rightarrow> string \<Rightarrow> request list \<Rightarrow>
   (go_error + Pools \<times> PoolsDefault) \<times> request list" where
  "pollNode e cluster node reqs =
     (case GetPoolsData e (CreateRestClient node (Login cluster) (Pass cluster)) reqs of
        (Inl err, sent1) \<Rightarrow> (Inl err, sent1)
      | (Inr pools, sent1) \<Rightarrow>
          (case GetPoolsDefaultData e (CreateRestClient node (Login cluster) (Pass cluster))
                  sent1 of
             (Inl err, sent2) \<Rightarrow> (Inl err, sent2)
           | (Inr poolsDefaults, sent2) \<Rightarrow> (Inr (pools, poolsDefaults), sent2)))"

text \<open>The two requests that the client of a node sends.\<close>

definition poolsRequest :: "Cluster \<Rightarrow> string \<Rightarrow> request" where
  "poolsRequest cluster node =
     \<lparr>Method = ''GET'', URL = node @ ''/pools'', BasicAuth = (Login cluster, Pass cluster)\<rparr>"

definition poolsDefaultRequest :: "Cluster \<Rightarrow> string \<Rightarrow> request" where
  "poolsDefaultRequest cluster node =
     \<lparr>Method = ''GET'', URL = node @ ''/pools/default'',
      BasicAuth = (Login cluster, Pass cluster)\<rparr>"

text \<open>The number of nodes that a record of the report gives for its cluster.\<close>

fun nodeCountOf :: "cluster_record \<Rightarrow> int" where
  "nodeCountOf (FullRecord c) = NodeCount c"
| "nodeCountOf (BriefRecord b) = Size b"
| "nodeCountOf r = 0"

text \<open>The loop over the nodes has not yet built a report: both pointers are \<^verbatim>\<open>nil\<close>.\<close>

abbreviation idle :: "loop_state \<Rightarrow> bool" where
  "idle st \<equiv> thisCluster st = None \<and> briefCluster st = None"

text \<open>
  The summary and the requests as the loop over the clusters finds them when it reaches
  the cluster of index \<open>i\<close>: the loop has run over the clusters before it.
\<close>

definition reached :: "env \<Rightarrow> bool \<Rightarrow> Cluster slice \<Rightarrow> nat \<Rightarrow> SummaryInfo \<times> request list" where
  "reached e full clusters i =
     clusterLoop e full 0 (take i (elems clusters)) (newSummary clusters, [])"

text \<open>
  The requests sent so far when the loop over the nodes of a cluster comes to the node of
  index \<open>j\<close>, and whether that node then fails one of its two calls. The loop comes to
  node \<open>j\<close> when every node before it has failed.
\<close>

definition askedAt ::
  "env \<Rightarrow> bool \<Rightarrow> nat \<Rightarrow> Cluster \<Rightarrow> SummaryInfo \<times> request list \<Rightarrow> nat \<Rightarrow> request list" where
  "askedAt e full cnum cluster s j =
     sent (nodeLoop e full cnum cluster (take j (elems (Cluster.Nodes cluster))) (freshState s))"

definition nodeFails ::
  "env \<Rightarrow> bool \<Rightarrow> nat \<Rightarrow> Cluster \<Rightarrow> SummaryInfo \<times> request list \<Rightarrow> nat \<Rightarrow> bool" where
  "nodeFails e full cnum cluster s j =
     isl (fst (pollNode e cluster (elems (Cluster.Nodes cluster) ! j)
                 (askedAt e full cnum cluster s j)))"

definition allNodesFail ::
  "env \<Rightarrow> bool \<Rightarrow> nat \<Rightarrow> Cluster \<Rightarrow> SummaryInfo \<times> request list \<Rightarrow> bool" where
  "allNodesFail e full cnum cluster s =
     (\<forall>j<length (elems (Cluster.Nodes cluster)). nodeFails e full cnum cluster s j)"

text \<open>
  The columns of a line of the CSV output: the line without its final newline, cut at
  the tabs.
\<close>

fun split_on :: "char \<Rightarrow> string \<Rightarrow> string list" where
  "split_on c [] = [[]]"
| "split_on c (x # xs) =
     (if x = c then [] # split_on c xs
      else (case split_on c xs of [] \<Rightarrow> [[x]] | col # cols \<Rightarrow> (x # col) # cols))"

definition columns :: "string \<Rightarrow> string list" where
  "columns line = split_on (CHR 0x09) (butlast line)"

text \<open>
  A number written with one decimal place: an optional minus sign, one digit or more, a
  point and one digit.
\<close>

definition is_digit :: "char \<Rightarrow> bool" where
  "is_digit c = (c \<in> set ''0123456789'')"

definition one_decimal :: "string \<Rightarrow> bool" where
  "one_decimal s =
     (let t = (if take 1 s = ''-'' then drop 1 s else s) in
      3 \<le> length t \<and> list_all is_digit (take (length t - 2) t) \<and>
      t ! (length t - 2) = CHR ''.'' \<and> is_digit (last t))"

subsection \<open>A small fleet, for concrete runs\<close>

text \<open>
  Three clusters and the nodes behind them. Node \<^verbatim>\<open>a\<close> refuses the connection, node
  \<^verbatim>\<open>b\<close> answers both calls, node \<^verbatim>\<open>c\<close> would answer but is listed after \<^verbatim>\<open>b\<close>; node
  \<^verbatim>\<open>d\<close> answers 401; node \<^verbatim>\<open>e\<close> answers 200 with a page that is not JSON; node \<^verbatim>\<open>f\<close>
  presents a certificate signed by an authority that is not trusted, which \<^verbatim>\<open>client.Do\<close>
  reports, as every error of its own, inside a \<^verbatim>\<open>*url.Error\<close>; node \<^verbatim>\<open>g\<close> answers 403
  with a list of permissions. Node \<^verbatim>\<open>d\<close> is also reached with the scheme in capitals,
  \<^verbatim>\<open>HTTP://d:8091\<close>, which \<^verbatim>\<open>req.URL.String()\<close> gives back in lower case; every other
  URL of the fleet comes back as it was written. The cluster behind \<^verbatim>\<open>b\<close> has two nodes:
  one of version
  6.1.0, which reports no number of cores (the field stays at its zero value), with 16 GiB
  of memory, and one of version 6.6.0 with 8 cores and 8 GiB.
\<close>

definition demo_pools_body :: string where
  \<open>demo_pools_body =
     ''{"implementationVersion":"6.6.0-7909-enterprise","isEnterprise":true,"uuid":"c0ffee"}''\<close>

definition demo_pools :: Pools where
  "demo_pools =
     \<lparr>Pools.ImplementationVersion = ''6.6.0-7909-enterprise'', Pools.IsEnterprise = True,
      Pools.Uuid = ''c0ffee''\<rparr>"

definition demo_default_body :: string where
  \<open>demo_default_body =
     ''{"name":"default","nodes":[{"hostname":"b:8091","memoryTotal":17179869184,"version":"6.1.0"},'' @
     ''{"hostname":"c:8091","memoryTotal":8589934592,"systemStats":{"cpu_cores_available":8},"version":"6.6.0"}]}''\<close>

definition demo_old_node :: NodeInfo where
  "demo_old_node =
     \<lparr>Hostname = ''b:8091'', MemoryTotal = float64_of_nat 17179869184,
      SystemStats = \<lparr>CPU_cores_available = zero64\<rparr>, NodeInfo.Version = ''6.1.0''\<rparr>"

definition demo_new_node :: NodeInfo where
  "demo_new_node =
     \<lparr>Hostname = ''c:8091'', MemoryTotal = float64_of_nat 8589934592,
      SystemStats = \<lparr>CPU_cores_available = float64_of_nat 8\<rparr>, NodeInfo.Version = ''6.6.0''\<rparr>"

definition demo_zero_storage :: ClusterStorageInfo where
  "demo_zero_storage =
     \<lparr>HDD = \<lparr>HDDStorageInfo.Free = zero64, HDDStorageInfo.QuotaTotal = zero64,
              HDDStorageInfo.Total = zero64, HDDStorageInfo.Used = zero64,
              HDDStorageInfo.UsedByData = zero64\<rparr>,
      ClusterStorageInfo.RAM =
            \<lparr>RAMStorageInfo.QuotaTotal = zero64, QuotaTotalPerNode = zero64, QuotaUsed = zero64,
              QuotaUsedPerNode = zero64, RAMStorageInfo.Total = zero64,
              RAMStorageInfo.Used = zero64, RAMStorageInfo.UsedByData = zero64\<rparr>\<rparr>"

definition demo_default :: PoolsDefault where
  "demo_default =
     \<lparr>PoolsDefault.Balanced = False, PoolsDefault.ClusterName = [],
      PoolsDefault.FtsMemoryQuota = 0, PoolsDefault.IndexMemoryQuota = 0,
      PoolsDefault.MemoryQuota = 0, PoolsDefault.Name = ''default'',
      PoolsDefault.Nodes = Some [demo_old_node, demo_new_node],
      PoolsDefault.RebalanceStatus = [], PoolsDefault.StorageTotals = demo_zero_storage\<rparr>"

definition demo_forbidden_body :: string where
  \<open>demo_forbidden_body =
     ''{"message":"Forbidden. User needs one of the following permissions",'' @
     ''"permissions":["cluster.pools!read","cluster.admin!read"]}''\<close>

definition demo_overlay :: overlay where
  "demo_overlay =
     \<lparr>Message = ''Forbidden. User needs one of the following permissions'',
      Permissions = Some [''cluster.pools!read'', ''cluster.admin!read'']\<rparr>"

definition demo_refused :: go_error where
  "demo_refused =
     url_Error ''Get http://a:8091/pools: dial tcp: connect: connection refused''
       (other_error ''dial tcp: connect: connection refused'')"

definition demo_untrusted :: go_error where
  "demo_untrusted =
     url_Error ''Get https://f:18091/pools: x509: certificate signed by unknown authority''
       (x509_Error x509_UnknownAuthorityError ''x509: certificate signed by unknown authority'')"

definition demo_Do :: "nat \<Rightarrow> request \<Rightarrow> go_error + response" where
  "demo_Do n req =
     (if URL req = ''http://b:8091/pools'' \<or> URL req = ''http://c:8091/pools'' then
        Inr \<lparr>StatusCode = 200, Body = Some demo_pools_body\<rparr>
      else if URL req = ''http://b:8091/pools/default'' \<or>
              URL req = ''http://c:8091/pools/default'' then
        Inr \<lparr>StatusCode = 200, Body = Some demo_default_body\<rparr>
      else if URL req = ''http://d:8091/pools'' \<or> URL req = ''HTTP://d:8091/pools'' then
        Inr \<lparr>StatusCode = 401, Body = Some []\<rparr>
      else if URL req = ''http://e:8091/pools'' then
        Inr \<lparr>StatusCode = 200, Body = Some ''<html>''\<rparr>
      else if URL req = ''https://f:18091/pools'' then Inl demo_untrusted
      else if URL req = ''http://g:8091/pools'' then
        Inr \<lparr>StatusCode = 403, Body = Some demo_forbidden_body\<rparr>
      else Inl demo_refused)"

definition demo_syntax_error :: go_error where
  "demo_syntax_error = other_error ''invalid character '<' looking for beginning of value''"

definition demo_clusters :: ClusterList where
  "demo_clusters =
     \<lparr>ClusterList.Clusters = Some
        [\<lparr>Login = ''Administrator'', Pass = ''password1'',
          Cluster.Nodes = Some [''http://a:8091'', ''http://b:8091'', ''http://c:8091'']\<rparr>,
         \<lparr>Login = ''Administrator'', Pass = ''password2'',
          Cluster.Nodes = Some [''http://a:8091'', ''http://d:8091'']\<rparr>,
         \<lparr>Login = ''Administrator'', Pass = ''password3'', Cluster.Nodes = None\<rparr>]\<rparr>"

definition demo_env :: env where
  "demo_env =
     \<lparr>NewRequest = (\<lambda>method url. None),
      URL_String = (\<lambda>rawurl. if rawurl = ''HTTP://d:8091/pools'' then ''http://d:8091/pools''
                               else rawurl),
      Do = demo_Do,
      DecodePools = (\<lambda>body. if body = Some demo_pools_body then Inr demo_pools
                              else Inl demo_syntax_error),
      DecodePoolsDefault = (\<lambda>body. if body = Some demo_default_body then Inr demo_default
                                     else Inl demo_syntax_error),
      DecodeOverlay = (\<lambda>body. if body = Some demo_forbidden_body then Inr demo_overlay
                                else Inl demo_syntax_error),
      ReadFile = (\<lambda>name. if name = ''clusters.json'' then Inr ''(the three clusters)''
                          else Inl (other_error ''open: no such file or directory'')),
      Unmarshal = (\<lambda>config. if config = ''(the three clusters)'' then Inr demo_clusters
                             else Inl demo_syntax_error),
      Now = ''cbsummary.out.2020-01-01-00:00:00'',
      MarshalNodeInfo = (\<lambda>nodeInfo. JObject [(''hostname'', JString (Hostname nodeInfo))]),
      Indent = (\<lambda>j. Inr ''(the JSON text)''),
      WriteFile = (\<lambda>name. None)\<rparr>"

definition demo_flags :: flags where
  "demo_flags =
     \<lparr>CONFIG_FILE = ''clusters.json'', OUTPUT_FILE = ''report'', HELP = False, FULL = False,
      CSV = False\<rparr>"

section \<open>Properties\<close>

subsection \<open>The REST client\<close>

text \<open>Every call of \<^verbatim>\<open>executeRequest\<close> sends its request, whatever comes back.\<close>

lemma executeRequest_sent: "snd (executeRequest e req reqs) = reqs @ [req]"
  by (simp add: executeRequest_def split: sum.splits)

text \<open>What \<^verbatim>\<open>executeRequest\<close> makes of a response, by its status code.\<close>

lemma executeRequest_response:
  assumes "Do e (length reqs) req = Inr resp"
  shows "fst (executeRequest e req reqs) =
     (if StatusCode resp = 400 then
        Inl (HttpError 400 (Method req) (URL_String e (URL req))
               (case Body resp of None \<Rightarrow> ''<no body>'' | Some contents \<Rightarrow> contents))
      else if StatusCode resp = 403 then
        Inl (HttpError 403 (Method req) (URL_String e (URL req))
               (case DecodeOverlay e (Body resp) of
                  Inl err \<Rightarrow> []
                | Inr data \<Rightarrow> Message data @ '': '' @ Join (elems (Permissions data)) '', ''))
      else if StatusCode resp \<in> {200, 201, 202} then Inr resp
      else Inl (HttpError (StatusCode resp) (Method req) (URL_String e (URL req)) []))"
  using assms
  by (simp add: executeRequest_def StatusBadRequest_def StatusForbidden_def StatusOK_def
      StatusAccepted_def StatusCreated_def split: sum.splits)

lemma executeGet_response:
  assumes "NewRequest e ''GET'' uri = None"
    and "Do e (length reqs)
           \<lparr>Method = ''GET'', URL = uri, BasicAuth = (username r, password r)\<rparr> = Inr resp"
  shows "fst (executeGet e r uri reqs) =
     (if StatusCode resp = 400 then
        Inl (HttpError 400 ''GET'' (URL_String e uri)
               (case Body resp of None \<Rightarrow> ''<no body>'' | Some contents \<Rightarrow> contents))
      else if StatusCode resp = 403 then
        Inl (HttpError 403 ''GET'' (URL_String e uri)
               (case DecodeOverlay e (Body resp) of
                  Inl err \<Rightarrow> []
                | Inr data \<Rightarrow> Message data @ '': '' @ Join (elems (Permissions data)) '', ''))
      else if StatusCode resp \<in> {200, 201, 202} then Inr resp
      else Inl (HttpError (StatusCode resp) ''GET'' (URL_String e uri) []))"
  using executeRequest_response [OF assms(2)] assms(1) by (simp add: executeGet_def)

lemma executeGet_sent:
  "snd (executeGet e r uri reqs) =
     (if NewRequest e ''GET'' uri = None
      then reqs @ [\<lparr>Method = ''GET'', URL = uri, BasicAuth = (username r, password r)\<rparr>]
      else reqs)"
  by (auto simp: executeGet_def executeRequest_sent split: option.splits)

lemma GetPoolsData_fst:
  "fst (GetPoolsData e r reqs) =
     (case fst (executeGet e r (host r @ ''/pools'') reqs) of
        Inl err \<Rightarrow> Inl err
      | Inr resp \<Rightarrow>
          (case DecodePools e (Body resp) of
             Inl err \<Rightarrow> Inl (RestClientError ''GET'' (host r @ ''/pools'') err)
           | Inr data \<Rightarrow> Inr data))"
  by (simp add: GetPoolsData_def Let_def split: prod.splits sum.splits)

lemma GetPoolsDefaultData_fst:
  "fst (GetPoolsDefaultData e r reqs) =
     (case fst (executeGet e r (host r @ ''/pools/default'') reqs) of
        Inl err \<Rightarrow> Inl err
      | Inr resp \<Rightarrow>
          (case DecodePoolsDefault e (Body resp) of
             Inl err \<Rightarrow> Inl (RestClientError ''GET'' (host r @ ''/pools/default'') err)
           | Inr data \<Rightarrow> Inr data))"
  by (simp add: GetPoolsDefaultData_def Let_def split: prod.splits sum.splits)

lemma GetPoolsData_sent:
  "snd (GetPoolsData e (CreateRestClient n u p) reqs) =
     (if NewRequest e ''GET'' (n @ ''/pools'') = None
      then reqs @ [\<lparr>Method = ''GET'', URL = n @ ''/pools'', BasicAuth = (u, p)\<rparr>]
      else reqs)"
proof -
  have "snd (GetPoolsData e (CreateRestClient n u p) reqs) =
        snd (executeGet e (CreateRestClient n u p) (n @ ''/pools'') reqs)"
    by (simp add: GetPoolsData_def CreateRestClient_def Let_def split: prod.splits sum.splits)
  then show ?thesis
    by (simp add: executeGet_sent) (simp add: CreateRestClient_def)
qed

lemma GetPoolsData_Inr:
  "fst (GetPoolsData e (CreateRestClient n u p) reqs) = Inr x \<Longrightarrow>
   NewRequest e ''GET'' (n @ ''/pools'') = None"
  by (auto simp: GetPoolsData_def CreateRestClient_def Let_def executeGet_def
      split: prod.splits sum.splits option.splits)

lemma GetPoolsDefaultData_sent:
  "snd (GetPoolsDefaultData e (CreateRestClient n u p) reqs) =
     (if NewRequest e ''GET'' (n @ ''/pools/default'') = None
      then reqs @ [\<lparr>Method = ''GET'', URL = n @ ''/pools/default'', BasicAuth = (u, p)\<rparr>]
      else reqs)"
proof -
  have "snd (GetPoolsDefaultData e (CreateRestClient n u p) reqs) =
        snd (executeGet e (CreateRestClient n u p) (n @ ''/pools/default'') reqs)"
    by (simp add: GetPoolsDefaultData_def CreateRestClient_def Let_def split: prod.splits sum.splits)
  then show ?thesis
    by (simp add: executeGet_sent) (simp add: CreateRestClient_def)
qed

lemma GetPoolsDefaultData_Inr:
  "fst (GetPoolsDefaultData e (CreateRestClient n u p) reqs) = Inr x \<Longrightarrow>
   NewRequest e ''GET'' (n @ ''/pools/default'') = None"
  by (auto simp: GetPoolsDefaultData_def CreateRestClient_def Let_def executeGet_def
      split: prod.splits sum.splits option.splits)

text \<open>
  C9, as the code has it. When \<^verbatim>\<open>client.Do\<close> returns a response, \<^verbatim>\<open>executeGet\<close> returns
  it exactly when its status is 200, 201 or 202. Status 400 gives an \<open>HttpError\<close> with
  the text of the body (\<^verbatim>\<open><no body>\<close> when the body cannot be read); status 401 an
  \<open>HttpError\<close> whose message says to check username and password; status 403 an
  \<open>HttpError\<close> with the message and the permissions of the body, joined by commas,
  when the body decodes, and with an empty text when it does not; every other status an
  \<open>HttpError\<close> with that status and an empty text. Each \<open>HttpError\<close> names the
  request by \<^verbatim>\<open>req.URL.String()\<close>, which is also the URL in the message of a 401.
  \<^verbatim>\<open>GetPoolsData\<close> and \<^verbatim>\<open>GetPoolsDefaultData\<close> return the decoded payload when the
  status is 200, 201 or 202 and the body decodes; when the body does not decode they
  return a \<open>RestClientError\<close> with the error of the decoder and the URL as the getter
  wrote it; for every other status they return the error of \<^verbatim>\<open>executeGet\<close>.
\<close>

theorem get_payload_or_classified_failure:
  assumes "NewRequest e ''GET'' uri = None"
    and "Do e (length reqs)
           \<lparr>Method = ''GET'', URL = uri, BasicAuth = (username r, password r)\<rparr> = Inr resp"
  shows "(fst (executeGet e r uri reqs) = Inr resp \<longleftrightarrow> StatusCode resp \<in> {200, 201, 202})
    \<and> (StatusCode resp = 400 \<longrightarrow>
          fst (executeGet e r uri reqs) =
            Inl (HttpError 400 ''GET'' (URL_String e uri)
                   (case Body resp of None \<Rightarrow> ''<no body>'' | Some contents \<Rightarrow> contents)))
    \<and> (StatusCode resp = 401 \<longrightarrow>
          fst (executeGet e r uri reqs) = Inl (HttpError 401 ''GET'' (URL_String e uri) []) \<and>
          Error (HttpError 401 ''GET'' (URL_String e uri) []) =
            ''Authentication error executing '' @ dquote @ ''GET '' @ URL_String e uri @ dquote @
            '' check username and password'')
    \<and> (StatusCode resp = 403 \<longrightarrow>
          fst (executeGet e r uri reqs) =
            Inl (HttpError 403 ''GET'' (URL_String e uri)
                   (case DecodeOverlay e (Body resp) of
                      Inl err \<Rightarrow> []
                    | Inr data \<Rightarrow> Message data @ '': '' @ Join (elems (Permissions data)) '', '')))
    \<and> (StatusCode resp \<notin> {200, 201, 202, 400, 403} \<longrightarrow>
          fst (executeGet e r uri reqs) = Inl (HttpError (StatusCode resp) ''GET'' (URL_String e uri) []))
    \<and> (uri = host r @ ''/pools'' \<longrightarrow>
          fst (GetPoolsData e r reqs) =
            (if StatusCode resp \<in> {200, 201, 202} then
               (case DecodePools e (Body resp) of
                  Inl err \<Rightarrow> Inl (RestClientError ''GET'' uri err)
                | Inr data \<Rightarrow> Inr data)
             else Inl (projl (fst (executeGet e r uri reqs)))))
    \<and> (uri = host r @ ''/pools/default'' \<longrightarrow>
          fst (GetPoolsDefaultData e r reqs) =
            (if StatusCode resp \<in> {200, 201, 202} then
               (case DecodePoolsDefault e (Body resp) of
                  Inl err \<Rightarrow> Inl (RestClientError ''GET'' uri err)
                | Inr data \<Rightarrow> Inr data)
             else Inl (projl (fst (executeGet e r uri reqs)))))"
proof -
  note resp = executeGet_response [OF assms]
  have "fst (executeGet e r uri reqs) = Inr resp \<longleftrightarrow> StatusCode resp \<in> {200, 201, 202}"
    unfolding resp by auto
  moreover have "StatusCode resp = 400 \<longrightarrow>
          fst (executeGet e r uri reqs) =
            Inl (HttpError 400 ''GET'' (URL_String e uri)
                   (case Body resp of None \<Rightarrow> ''<no body>'' | Some contents \<Rightarrow> contents))"
    unfolding resp by simp
  moreover have "StatusCode resp = 401 \<longrightarrow>
          fst (executeGet e r uri reqs) = Inl (HttpError 401 ''GET'' (URL_String e uri) []) \<and>
          Error (HttpError 401 ''GET'' (URL_String e uri) []) =
            ''Authentication error executing '' @ dquote @ ''GET '' @ URL_String e uri @ dquote @
            '' check username and password''"
    unfolding resp by (simp add: StatusUnauthorized_def StatusBadRequest_def)
  moreover have "StatusCode resp = 403 \<longrightarrow>
          fst (executeGet e r uri reqs) =
            Inl (HttpError 403 ''GET'' (URL_String e uri)
                   (case DecodeOverlay e (Body resp) of
                      Inl err \<Rightarrow> []
                    | Inr data \<Rightarrow> Message data @ '': '' @ Join (elems (Permissions data)) '', ''))"
    unfolding resp by simp
  moreover have "StatusCode resp \<notin> {200, 201, 202, 400, 403} \<longrightarrow>
          fst (executeGet e r uri reqs) = Inl (HttpError (StatusCode resp) ''GET'' (URL_String e uri) [])"
    unfolding resp by simp
  moreover have "uri = host r @ ''/pools'' \<longrightarrow>
          fst (GetPoolsData e r reqs) =
            (if StatusCode resp \<in> {200, 201, 202} then
               (case DecodePools e (Body resp) of
                  Inl err \<Rightarrow> Inl (RestClientError ''GET'' uri err)
                | Inr data \<Rightarrow> Inr data)
             else Inl (projl (fst (executeGet e r uri reqs))))"
    unfolding GetPoolsData_fst using resp by auto
  moreover have "uri = host r @ ''/pools/default'' \<longrightarrow>
          fst (GetPoolsDefaultData e r reqs) =
            (if StatusCode resp \<in> {200, 201, 202} then
               (case DecodePoolsDefault e (Body resp) of
                  Inl err \<Rightarrow> Inl (RestClientError ''GET'' uri err)
                | Inr data \<Rightarrow> Inr data)
             else Inl (projl (fst (executeGet e r uri reqs))))"
    unfolding GetPoolsDefaultData_fst using resp by auto
  ultimately show ?thesis by blast
qed

text \<open>
  The theorem at three nodes of the small fleet. The requests can be built. Node \<^verbatim>\<open>b\<close>
  answers 200 with a body that decodes, and \<^verbatim>\<open>GetPoolsData\<close> returns the payload; node
  \<^verbatim>\<open>d\<close> answers 401 and node \<^verbatim>\<open>g\<close> 403 with a message and two permissions, and
  \<^verbatim>\<open>GetPoolsData\<close> returns the \<open>HttpError\<close> of each. Node \<^verbatim>\<open>d\<close> is asked once
  more as \<^verbatim>\<open>HTTP://d:8091\<close>: the error and its message then have the URL with the scheme
  in lower case.
\<close>

theorem get_payload_or_classified_failure_witness:
  "NewRequest demo_env ''GET'' ''http://b:8091/pools'' = None \<and>
   Do demo_env 0 \<lparr>Method = ''GET'', URL = ''http://b:8091/pools'',
                  BasicAuth = (''Administrator'', ''password1'')\<rparr> =
     Inr \<lparr>StatusCode = 200, Body = Some demo_pools_body\<rparr> \<and>
   fst (GetPoolsData demo_env (CreateRestClient ''http://b:8091'' ''Administrator'' ''password1'') []) =
     Inr demo_pools \<and>
   Do demo_env 0 \<lparr>Method = ''GET'', URL = ''http://d:8091/pools'',
                  BasicAuth = (''Administrator'', ''password2'')\<rparr> =
     Inr \<lparr>StatusCode = 401, Body = Some []\<rparr> \<and>
   fst (GetPoolsData demo_env (CreateRestClient ''http://d:8091'' ''Administrator'' ''password2'') []) =
     Inl (HttpError 401 ''GET'' ''http://d:8091/pools'' []) \<and>
   Do demo_env 0 \<lparr>Method = ''GET'', URL = ''http://g:8091/pools'',
                  BasicAuth = (''Administrator'', ''password1'')\<rparr> =
     Inr \<lparr>StatusCode = 403, Body = Some demo_forbidden_body\<rparr> \<and>
   fst (GetPoolsData demo_env (CreateRestClient ''http://g:8091'' ''Administrator'' ''password1'') []) =
     Inl (HttpError 403 ''GET'' ''http://g:8091/pools''
            (''Forbidden. User needs one of the following permissions: '' @
             ''cluster.pools!read, cluster.admin!read'')) \<and>
   Do demo_env 0 \<lparr>Method = ''GET'', URL = ''HTTP://d:8091/pools'',
                  BasicAuth = (''Administrator'', ''password2'')\<rparr> =
     Inr \<lparr>StatusCode = 401, Body = Some []\<rparr> \<and>
   fst (GetPoolsData demo_env (CreateRestClient ''HTTP://d:8091'' ''Administrator'' ''password2'') []) =
     Inl (HttpError 401 ''GET'' ''http://d:8091/pools'' []) \<and>
   Error (HttpError 401 ''GET'' ''http://d:8091/pools'' []) =
     ''Authentication error executing '' @ dquote @ ''GET http://d:8091/pools'' @ dquote @
     '' check username and password''"
  using get_payload_or_classified_failure
    [of demo_env "''http://b:8091/pools''" "[]"
      "CreateRestClient ''http://b:8091'' ''Administrator'' ''password1''"
      "\<lparr>StatusCode = 200, Body = Some demo_pools_body\<rparr>"]
    get_payload_or_classified_failure
    [of demo_env "''http://d:8091/pools''" "[]"
      "CreateRestClient ''http://d:8091'' ''Administrator'' ''password2''"
      "\<lparr>StatusCode = 401, Body = Some []\<rparr>"]
    get_payload_or_classified_failure
    [of demo_env "''http://g:8091/pools''" "[]"
      "CreateRestClient ''http://g:8091'' ''Administrator'' ''password1''"
      "\<lparr>StatusCode = 403, Body = Some demo_forbidden_body\<rparr>"]
    get_payload_or_classified_failure
    [of demo_env "''HTTP://d:8091/pools''" "[]"
      "CreateRestClient ''HTTP://d:8091'' ''Administrator'' ''password2''"
      "\<lparr>StatusCode = 401, Body = Some []\<rparr>"]
  by (simp add: demo_env_def demo_Do_def CreateRestClient_def demo_overlay_def elems_def)

text \<open>
  C9 as it is stated fails: a status in \<open>{200, 201, 202}\<close> does not by itself give the
  decoded payload. Node \<^verbatim>\<open>e\<close> answers 200 with a body that is not JSON, and
  \<^verbatim>\<open>GetPoolsData\<close> returns a \<open>RestClientError\<close>.
\<close>

theorem get_status_200_without_payload:
  "Do demo_env 0 \<lparr>Method = ''GET'', URL = ''http://e:8091/pools'',
                  BasicAuth = (''Administrator'', ''password1'')\<rparr> =
     Inr \<lparr>StatusCode = 200, Body = Some ''<html>''\<rparr> \<and>
   fst (GetPoolsData demo_env (CreateRestClient ''http://e:8091'' ''Administrator'' ''password1'') []) =
     Inl (RestClientError ''GET'' ''http://e:8091/pools'' demo_syntax_error)"
  by (simp add: GetPoolsData_def executeGet_def executeRequest_def demo_env_def demo_Do_def
      CreateRestClient_def demo_pools_body_def StatusOK_def StatusCreated_def StatusAccepted_def
      StatusBadRequest_def StatusForbidden_def Let_def)


subsection \<open>The loop over the nodes\<close>

text \<open>The loop body in terms of the two calls for a node.\<close>

lemma nodeLoop_Cons:
  "nodeLoop e full cnum cluster (node # rest) st =
     (case pollNode e cluster node (sent st) of
        (Inl err, reqs) \<Rightarrow> nodeLoop e full cnum cluster rest (st\<lparr>cerr := Some err, sent := reqs\<rparr>)
      | (Inr pd, reqs) \<Rightarrow>
          (if full then fullReport cnum (fst pd) (snd pd) (st\<lparr>sent := reqs\<rparr>)
           else briefReport cnum (fst pd) (snd pd) (st\<lparr>sent := reqs\<rparr>)))"
  by (simp add: pollNode_def split: prod.splits sum.splits)

declare nodeLoop.simps(2) [simp del]

text \<open>The version maps: a count adds one to the sum of the values and keeps the keys distinct.\<close>

lemma sum_store:
  "sum_list (map snd (store m k (lookup m k + 1))) = sum_list (map snd m) + 1"
  by (induction m) auto

lemma keys_store:
  "map fst (store m k v) = (if k \<in> fst ` set m then map fst m else map fst m @ [k])"
  by (induction m) (force simp: image_iff)+

lemma distinct_store: "distinct (map fst m) \<Longrightarrow> distinct (map fst (store m k v))"
  by (simp add: keys_store)

lemma sum_briefVersions:
  "sum_list (map snd (briefVersions m nodes)) = sum_list (map snd m) + int (length nodes)"
  by (induction nodes arbitrary: m) (auto simp: sum_store)

lemma distinct_briefVersions:
  "distinct (map fst m) \<Longrightarrow> distinct (map fst (briefVersions m nodes))"
  by (induction nodes arbitrary: m) (auto simp: distinct_store)

lemma fullVersions_eq:
  "fullVersions (a, b) nodes = (briefVersions a nodes, briefVersions b nodes)"
  by (induction nodes arbitrary: a b) auto

text \<open>The loop that fills \<^verbatim>\<open>nodes\<close> stores the brief node of each node, in order.\<close>

lemma fillNodes_eq:
  "length nodes = k + length xs \<Longrightarrow>
   fillNodes nodes k xs = take k nodes @ map newBriefNode xs"
proof (induction xs arbitrary: nodes k)
  case Nil
  then show ?case by simp
next
  case (Cons x xs)
  have "fillNodes (nodes[k := newBriefNode x]) (k + 1) xs =
        take (k + 1) (nodes[k := newBriefNode x]) @ map newBriefNode xs"
    using Cons.prems by (intro Cons.IH) simp
  moreover have "take (k + 1) (nodes[k := newBriefNode x]) = take k nodes @ [newBriefNode x]"
    using Cons.prems by (simp add: take_Suc_conv_app_nth)
  ultimately show ?case by simp
qed

lemma fillNodes_map:
  "fillNodes (replicate (length xs) z) 0 xs = map newBriefNode xs"
  using fillNodes_eq [of "replicate (length xs) z" 0 xs] by simp

lemma newBriefCluster_eq:
  "newBriefCluster p d =
     \<lparr>BriefCluster.Nodes = Some (map newBriefNode (elems (PoolsDefault.Nodes d))),
      Size = len (PoolsDefault.Nodes d), UUID = Pools.Uuid p\<rparr>"
  by (simp add: newBriefCluster_def Let_def fillNodes_map len_def)

lemma fullReport_simps:
  "thisCluster (fullReport cnum p d st) \<noteq> None"
  "sent (fullReport cnum p d st) = sent st"
  "cerr (fullReport cnum p d st) = cerr st"
  "NumClusters (clusterSummary (fullReport cnum p d st)) = NumClusters (clusterSummary st)"
  "TotalNumNodes (clusterSummary (fullReport cnum p d st)) =
     TotalNumNodes (clusterSummary st) + len (PoolsDefault.Nodes d)"
  "SummaryInfo.NodeVersions (clusterSummary (fullReport cnum p d st)) =
     briefVersions (SummaryInfo.NodeVersions (clusterSummary st)) (elems (PoolsDefault.Nodes d))"
  "Clusters (clusterSummary (fullReport cnum p d st)) =
     (Clusters (clusterSummary st))
       [cnum := FullRecord (newClusterSummary p d (briefVersions [] (elems (PoolsDefault.Nodes d))))]"
  by (simp_all add: fullReport_def Let_def fullVersions_eq)

lemma briefReport_simps:
  "briefCluster (briefReport cnum p d st) \<noteq> None"
  "sent (briefReport cnum p d st) = sent st"
  "cerr (briefReport cnum p d st) = cerr st"
  "NumClusters (clusterSummary (briefReport cnum p d st)) = NumClusters (clusterSummary st)"
  "TotalNumNodes (clusterSummary (briefReport cnum p d st)) =
     TotalNumNodes (clusterSummary st) + len (PoolsDefault.Nodes d)"
  "SummaryInfo.NodeVersions (clusterSummary (briefReport cnum p d st)) =
     briefVersions (SummaryInfo.NodeVersions (clusterSummary st)) (elems (PoolsDefault.Nodes d))"
  "Clusters (clusterSummary (briefReport cnum p d st)) =
     (Clusters (clusterSummary st))[cnum := BriefRecord (newBriefCluster p d)]"
  by (simp_all add: briefReport_def Let_def)

lemma report_sent:
  "sent (if full then fullReport cnum p d st else briefReport cnum p d st) = sent st"
  by (simp add: fullReport_simps briefReport_simps)

lemma report_not_idle:
  "\<not> idle (if full then fullReport cnum p d st else briefReport cnum p d st)"
  using fullReport_simps(1) [of cnum p d st] briefReport_simps(1) [of cnum p d st] by auto

lemma report_summary_cong:
  "clusterSummary st = clusterSummary st' \<Longrightarrow>
   clusterSummary ((if full then fullReport cnum p d st else briefReport cnum p d st)) =
   clusterSummary ((if full then fullReport cnum p d st' else briefReport cnum p d st'))"
  by (simp add: fullReport_def briefReport_def Let_def split: prod.splits)

text \<open>
  The loop over a list of nodes followed by another: the second part runs only when the
  first has built no report.
\<close>

lemma nodeLoop_append:
  assumes "thisCluster st = None" "briefCluster st = None"
  shows "nodeLoop e full cnum c (xs @ ys) st =
     (if thisCluster (nodeLoop e full cnum c xs st) = None \<and>
         briefCluster (nodeLoop e full cnum c xs st) = None
      then nodeLoop e full cnum c ys (nodeLoop e full cnum c xs st)
      else nodeLoop e full cnum c xs st)"
  using assms
proof (induction xs arbitrary: st)
  case Nil
  then show ?case by simp
next
  case (Cons x xs)
  show ?case
  proof (cases "pollNode e c x (sent st)")
    case (Pair res reqs)
    show ?thesis
    proof (cases res)
      case (Inl err)
      with Pair Cons show ?thesis by (simp add: nodeLoop_Cons)
    next
      case (Inr pd)
      with Pair Cons.prems show ?thesis
        by (simp add: nodeLoop_Cons fullReport_simps briefReport_simps)
    qed
  qed
qed

lemma nodeLoop_snoc:
  assumes "idle st"
  shows "nodeLoop e full cnum c (xs @ [n]) st =
     (let st1 = nodeLoop e full cnum c xs st in
      if idle st1 then
        (case pollNode e c n (sent st1) of
           (Inl err, reqs) \<Rightarrow> st1\<lparr>cerr := Some err, sent := reqs\<rparr>
         | (Inr pd, reqs) \<Rightarrow>
             (if full then fullReport cnum (fst pd) (snd pd) (st1\<lparr>sent := reqs\<rparr>)
              else briefReport cnum (fst pd) (snd pd) (st1\<lparr>sent := reqs\<rparr>)))
      else st1)"
  using assms by (simp add: nodeLoop_append nodeLoop_Cons Let_def split: prod.splits sum.splits)

lemma nodeLoop_snoc_idle:
  assumes "idle st"
  shows "idle (nodeLoop e full cnum c (xs @ [n]) st) \<longleftrightarrow>
     idle (nodeLoop e full cnum c xs st) \<and>
     isl (fst (pollNode e c n (sent (nodeLoop e full cnum c xs st))))"
  using assms
  by (auto simp: nodeLoop_snoc Let_def fullReport_simps briefReport_simps
      split: prod.splits sum.splits)

text \<open>
  The loop ends with both pointers \<^verbatim>\<open>nil\<close> exactly when every node, asked in its turn,
  fails one of its calls.
\<close>

lemma nodeLoop_idle_iff:
  assumes "idle st"
  shows "idle (nodeLoop e full cnum c ns st) \<longleftrightarrow>
     (\<forall>j<length ns. isl (fst (pollNode e c (ns ! j) (sent (nodeLoop e full cnum c (take j ns) st)))))"
proof (induction ns rule: rev_induct)
  case Nil
  from assms show ?case by simp
next
  case (snoc n xs)
  have "(\<forall>j<length (xs @ [n]).
           isl (fst (pollNode e c ((xs @ [n]) ! j)
                  (sent (nodeLoop e full cnum c (take j (xs @ [n])) st))))) \<longleftrightarrow>
        (\<forall>j<length xs. isl (fst (pollNode e c (xs ! j) (sent (nodeLoop e full cnum c (take j xs) st))))) \<and>
        isl (fst (pollNode e c n (sent (nodeLoop e full cnum c xs st))))"
    by (auto simp: less_Suc_eq nth_append)
  with snoc assms show ?case
    by (simp only: nodeLoop_snoc_idle)
qed

text \<open>What the loop over the nodes does to the summary.\<close>

lemma nodeLoop_summary:
  assumes "idle st"
  shows "(idle (nodeLoop e full cnum c ns st) \<and>
            clusterSummary (nodeLoop e full cnum c ns st) = clusterSummary st) \<or>
         (\<not> idle (nodeLoop e full cnum c ns st) \<and>
            (\<exists>p d. clusterSummary (nodeLoop e full cnum c ns st) =
               clusterSummary ((if full then fullReport cnum p d st else briefReport cnum p d st))))"
  using assms
proof (induction ns arbitrary: st)
  case Nil
  then show ?case by simp
next
  case (Cons n ns)
  show ?case
  proof (cases "pollNode e c n (sent st)")
    case (Pair res reqs)
    show ?thesis
    proof (cases res)
      case (Inl err)
      have eq: "nodeLoop e full cnum c (n # ns) st =
                nodeLoop e full cnum c ns (st\<lparr>cerr := Some err, sent := reqs\<rparr>)"
        using Pair Inl by (simp add: nodeLoop_Cons)
      have "idle (st\<lparr>cerr := Some err, sent := reqs\<rparr>)" using Cons.prems by simp
      moreover have "clusterSummary (st\<lparr>cerr := Some err, sent := reqs\<rparr>) = clusterSummary st"
        by simp
      ultimately show ?thesis
        unfolding eq using Cons.IH [of "st\<lparr>cerr := Some err, sent := reqs\<rparr>"]
          report_summary_cong [of "st\<lparr>cerr := Some err, sent := reqs\<rparr>" st full cnum]
        by metis
    next
      case (Inr pd)
      have eq: "nodeLoop e full cnum c (n # ns) st =
                (if full then fullReport cnum (fst pd) (snd pd) (st\<lparr>sent := reqs\<rparr>)
                 else briefReport cnum (fst pd) (snd pd) (st\<lparr>sent := reqs\<rparr>))"
        using Pair Inr by (simp add: nodeLoop_Cons)
      have "\<not> idle (nodeLoop e full cnum c (n # ns) st)"
        unfolding eq
        using fullReport_simps(1) [of cnum "fst pd" "snd pd" "st\<lparr>sent := reqs\<rparr>"]
          briefReport_simps(1) [of cnum "fst pd" "snd pd" "st\<lparr>sent := reqs\<rparr>"]
        by auto
      moreover have "clusterSummary (nodeLoop e full cnum c (n # ns) st) =
               clusterSummary (if full then fullReport cnum (fst pd) (snd pd) st
                               else briefReport cnum (fst pd) (snd pd) st)"
        unfolding eq using report_summary_cong [of "st\<lparr>sent := reqs\<rparr>" st full cnum "fst pd" "snd pd"]
        by simp
      ultimately show ?thesis by blast
    qed
  qed
qed

text \<open>The requests of the two calls for a node.\<close>

lemma pollNode_sent:
  "\<exists>k\<le>2. snd (pollNode e c n reqs) = reqs @ take k [poolsRequest c n, poolsDefaultRequest c n]"
proof (cases "GetPoolsData e (CreateRestClient n (Login c) (Pass c)) reqs")
  case (Pair res sent1)
  have s1: "sent1 = (if NewRequest e ''GET'' (n @ ''/pools'') = None
                     then reqs @ [poolsRequest c n] else reqs)"
    using GetPoolsData_sent [of e n "Login c" "Pass c" reqs] Pair
    by (simp add: poolsRequest_def)
  show ?thesis
  proof (cases res)
    case (Inl err)
    with Pair have "snd (pollNode e c n reqs) = sent1" by (simp add: pollNode_def)
    with s1 have "snd (pollNode e c n reqs) = reqs @ take 1 [poolsRequest c n, poolsDefaultRequest c n]
                \<or> snd (pollNode e c n reqs) = reqs @ take 0 [poolsRequest c n, poolsDefaultRequest c n]"
      by (simp split: if_splits)
    then show ?thesis by (metis zero_le one_le_numeral)
  next
    case (Inr pools)
    with Pair have "NewRequest e ''GET'' (n @ ''/pools'') = None"
      using GetPoolsData_Inr [of e n "Login c" "Pass c" reqs pools] by simp
    with s1 have s1': "sent1 = reqs @ [poolsRequest c n]" by simp
    have "snd (pollNode e c n reqs) =
          snd (GetPoolsDefaultData e (CreateRestClient n (Login c) (Pass c)) sent1)"
      using Pair Inr by (simp add: pollNode_def split: prod.splits sum.splits)
    then have "snd (pollNode e c n reqs) = reqs @ take 2 [poolsRequest c n, poolsDefaultRequest c n]
             \<or> snd (pollNode e c n reqs) = reqs @ take 1 [poolsRequest c n, poolsDefaultRequest c n]"
      by (simp add: GetPoolsDefaultData_sent s1' poolsDefaultRequest_def)
    then show ?thesis by (metis order_refl one_le_numeral)
  qed
qed

lemma pollNode_Inr_sent:
  assumes "fst (pollNode e c n reqs) = Inr pd"
  shows "snd (pollNode e c n reqs) = reqs @ [poolsRequest c n, poolsDefaultRequest c n]"
proof (cases "GetPoolsData e (CreateRestClient n (Login c) (Pass c)) reqs")
  case (Pair res sent1)
  show ?thesis
  proof (cases res)
    case (Inl err)
    with Pair assms show ?thesis by (simp add: pollNode_def)
  next
    case (Inr pools)
    with Pair have "NewRequest e ''GET'' (n @ ''/pools'') = None"
      using GetPoolsData_Inr [of e n "Login c" "Pass c" reqs pools] by simp
    then have s1: "sent1 = reqs @ [poolsRequest c n]"
      using GetPoolsData_sent [of e n "Login c" "Pass c" reqs] Pair
      by (simp add: poolsRequest_def)
    show ?thesis
    proof (cases "GetPoolsDefaultData e (CreateRestClient n (Login c) (Pass c)) sent1")
      case p2: (Pair res2 sent2)
      show ?thesis
      proof (cases res2)
        case Inl
        with p2 Pair Inr assms show ?thesis by (simp add: pollNode_def)
      next
        case r2: (Inr d)
        with p2 have "NewRequest e ''GET'' (n @ ''/pools/default'') = None"
          using GetPoolsDefaultData_Inr [of e n "Login c" "Pass c" sent1 d] by simp
        then have "sent2 = sent1 @ [poolsDefaultRequest c n]"
          using GetPoolsDefaultData_sent [of e n "Login c" "Pass c" sent1] p2
          by (simp add: poolsDefaultRequest_def)
        with p2 r2 Pair Inr s1 show ?thesis by (simp add: pollNode_def)
      qed
    qed
  qed
qed

subsection \<open>A round of the loop over the clusters\<close>

lemma freshState_simps [simp]:
  "thisCluster (freshState s) = None"
  "briefCluster (freshState s) = None"
  "cerr (freshState s) = None"
  "clusterSummary (freshState s) = fst s"
  "sent (freshState s) = snd s"
  by (simp_all add: freshState_def)

lemma allNodesFail_idle:
  "allNodesFail e full cnum c s \<longleftrightarrow>
   idle (nodeLoop e full cnum c (elems (Cluster.Nodes c)) (freshState s))"
  by (simp add: allNodesFail_def nodeFails_def askedAt_def nodeLoop_idle_iff)

text \<open>What a round of the loop over the clusters does to the summary.\<close>

lemma clusterStep_effect:
  "\<exists>r nodes.
     Clusters (fst (clusterStep e full cnum c s)) = (Clusters (fst s))[cnum := r] \<and>
     NumClusters (fst (clusterStep e full cnum c s)) = NumClusters (fst s) \<and>
     TotalNumNodes (fst (clusterStep e full cnum c s)) = TotalNumNodes (fst s) + nodeCountOf r \<and>
     SummaryInfo.NodeVersions (fst (clusterStep e full cnum c s)) =
       briefVersions (SummaryInfo.NodeVersions (fst s)) nodes \<and>
     int (length nodes) = nodeCountOf r \<and>
     (if allNodesFail e full cnum c s then
        nodes = [] \<and>
        r = ErrorRecord
              \<lparr>TheCluster = c,
               ErrMsg = (case cerr (nodeLoop e full cnum c (elems (Cluster.Nodes c)) (freshState s)) of
                           Some err \<Rightarrow> Error err | None \<Rightarrow> ''Unknown Error'')\<rparr>
      else if full then (\<exists>x. r = FullRecord x) else (\<exists>b. r = BriefRecord b))"
proof -
  let ?st = "nodeLoop e full cnum c (elems (Cluster.Nodes c)) (freshState s)"
  show ?thesis
  proof (cases "idle ?st")
    case True
    then have same: "clusterSummary ?st = fst s"
      using nodeLoop_summary [of "freshState s" e full cnum c "elems (Cluster.Nodes c)"] by auto
    let ?r = "ErrorRecord
              \<lparr>TheCluster = c,
               ErrMsg = (case cerr ?st of Some err \<Rightarrow> Error err | None \<Rightarrow> ''Unknown Error'')\<rparr>"
    have "fst (clusterStep e full cnum c s) = (fst s)\<lparr>Clusters := (Clusters (fst s))[cnum := ?r]\<rparr>"
      using True same by (simp add: clusterStep_def Let_def)
    then show ?thesis using True
      by (intro exI [of _ ?r] exI [of _ "[]"]) (simp add: allNodesFail_idle)
  next
    case False
    then obtain p d where rep: "clusterSummary ?st =
        clusterSummary (if full then fullReport cnum p d (freshState s)
                        else briefReport cnum p d (freshState s))"
      using nodeLoop_summary [of "freshState s" e full cnum c "elems (Cluster.Nodes c)"] by auto
    have step: "fst (clusterStep e full cnum c s) = clusterSummary ?st"
      using False by (auto simp: clusterStep_def Let_def)
    have nf: "\<not> allNodesFail e full cnum c s"
      using False by (simp add: allNodesFail_idle)
    show ?thesis
    proof (cases full)
      case True
      let ?r = "FullRecord (newClusterSummary p d (briefVersions [] (elems (PoolsDefault.Nodes d))))"
      from rep True have "clusterSummary ?st = clusterSummary (fullReport cnum p d (freshState s))"
        by simp
      then show ?thesis
        unfolding step using nf True
        by (intro exI [of _ ?r] exI [of _ "elems (PoolsDefault.Nodes d)"])
          (simp add: fullReport_simps newClusterSummary_def len_def)
    next
      case notfull: False
      let ?r = "BriefRecord (newBriefCluster p d)"
      from rep notfull have "clusterSummary ?st = clusterSummary (briefReport cnum p d (freshState s))"
        by simp
      then show ?thesis
        unfolding step using nf notfull
        by (intro exI [of _ ?r] exI [of _ "elems (PoolsDefault.Nodes d)"])
          (simp add: briefReport_simps newBriefCluster_eq len_def)
    qed
  qed
qed

text \<open>The loop comes to node \<open>j\<close> with both pointers nil when every node before it failed.\<close>

lemma idle_take_iff:
  assumes "j \<le> length (elems (Cluster.Nodes c))"
  shows "idle (nodeLoop e full cnum c (take j (elems (Cluster.Nodes c))) (freshState s)) \<longleftrightarrow>
         (\<forall>i<j. nodeFails e full cnum c s i)"
proof -
  let ?ns = "elems (Cluster.Nodes c)"
  have "idle (nodeLoop e full cnum c (take j ?ns) (freshState s)) \<longleftrightarrow>
        (\<forall>i<length (take j ?ns).
           isl (fst (pollNode e c (take j ?ns ! i)
                  (sent (nodeLoop e full cnum c (take i (take j ?ns)) (freshState s))))))"
    by (rule nodeLoop_idle_iff) simp
  also have "\<dots> \<longleftrightarrow> (\<forall>i<j. nodeFails e full cnum c s i)"
    using assms by (auto simp: nodeFails_def askedAt_def min_def)
  finally show ?thesis .
qed

lemma nodeLoop_take_Suc:
  assumes "j < length (elems (Cluster.Nodes c))"
    and "\<forall>i<j. nodeFails e full cnum c s i"
  shows "nodeLoop e full cnum c (take (Suc j) (elems (Cluster.Nodes c))) (freshState s) =
     (let st1 = nodeLoop e full cnum c (take j (elems (Cluster.Nodes c))) (freshState s) in
      case pollNode e c (elems (Cluster.Nodes c) ! j) (askedAt e full cnum c s j) of
        (Inl err, reqs) \<Rightarrow> st1\<lparr>cerr := Some err, sent := reqs\<rparr>
      | (Inr pd, reqs) \<Rightarrow>
          (if full then fullReport cnum (fst pd) (snd pd) (st1\<lparr>sent := reqs\<rparr>)
           else briefReport cnum (fst pd) (snd pd) (st1\<lparr>sent := reqs\<rparr>)))"
proof -
  let ?ns = "elems (Cluster.Nodes c)"
  have idle: "idle (nodeLoop e full cnum c (take j ?ns) (freshState s))"
    using assms by (simp add: idle_take_iff)
  have "take (Suc j) ?ns = take j ?ns @ [?ns ! j]"
    using assms(1) by (simp add: take_Suc_conv_app_nth)
  then show ?thesis
    using idle nodeLoop_snoc [of "freshState s" e full cnum c "take j ?ns" "?ns ! j"]
    by (simp add: askedAt_def Let_def)
qed

lemma askedAt_Suc:
  assumes "j < length (elems (Cluster.Nodes c))"
    and "\<forall>i<j. nodeFails e full cnum c s i"
  shows "askedAt e full cnum c s (Suc j) =
         snd (pollNode e c (elems (Cluster.Nodes c) ! j) (askedAt e full cnum c s j))"
proof -
  have "sent (nodeLoop e full cnum c (take (Suc j) (elems (Cluster.Nodes c))) (freshState s)) =
        snd (pollNode e c (elems (Cluster.Nodes c) ! j) (askedAt e full cnum c s j))"
    unfolding nodeLoop_take_Suc [OF assms]
    by (simp add: Let_def fullReport_simps briefReport_simps split: prod.splits sum.splits)
  then show ?thesis by (simp add: askedAt_def)
qed

lemma nodeLoop_stops:
  assumes j: "j < length (elems (Cluster.Nodes c))"
    and before: "\<forall>i<j. nodeFails e full cnum c s i"
    and here: "\<not> nodeFails e full cnum c s j"
  shows "nodeLoop e full cnum c (elems (Cluster.Nodes c)) (freshState s) =
         nodeLoop e full cnum c (take (Suc j) (elems (Cluster.Nodes c))) (freshState s)"
proof -
  let ?ns = "elems (Cluster.Nodes c)"
  have "\<not> (\<forall>i<Suc j. nodeFails e full cnum c s i)" using here by blast
  then have notidle: "\<not> idle (nodeLoop e full cnum c (take (Suc j) ?ns) (freshState s))"
    using j by (simp only: idle_take_iff [of "Suc j" c e full cnum s] Suc_leI simp_thms)
  have "nodeLoop e full cnum c (take (Suc j) ?ns @ drop (Suc j) ?ns) (freshState s) =
        nodeLoop e full cnum c (take (Suc j) ?ns) (freshState s)"
    using notidle by (subst nodeLoop_append) auto
  then show ?thesis by simp
qed

lemma idle_summary:
  assumes "j \<le> length (elems (Cluster.Nodes c))" and "\<forall>i<j. nodeFails e full cnum c s i"
  shows "idle (nodeLoop e full cnum c (take j (elems (Cluster.Nodes c))) (freshState s)) \<and>
         clusterSummary (nodeLoop e full cnum c (take j (elems (Cluster.Nodes c))) (freshState s)) = fst s \<and>
         (j = 0 \<longrightarrow> cerr (nodeLoop e full cnum c (take j (elems (Cluster.Nodes c))) (freshState s)) = None)"
proof -
  have "idle (nodeLoop e full cnum c (take j (elems (Cluster.Nodes c))) (freshState s))"
    using assms by (simp add: idle_take_iff)
  then show ?thesis
    using nodeLoop_summary [of "freshState s" e full cnum c "take j (elems (Cluster.Nodes c))"]
    by auto
qed

lemma clusterStep_success:
  assumes j: "j < length (elems (Cluster.Nodes c))"
    and before: "\<forall>i<j. nodeFails e full cnum c s i"
    and here: "\<not> nodeFails e full cnum c s j"
  shows "\<exists>p d. fst (pollNode e c (elems (Cluster.Nodes c) ! j) (askedAt e full cnum c s j)) = Inr (p, d) \<and>
           fst (clusterStep e full cnum c s) =
             clusterSummary (if full then fullReport cnum p d (freshState s)
                             else briefReport cnum p d (freshState s)) \<and>
           snd (clusterStep e full cnum c s) =
             askedAt e full cnum c s j @
             [poolsRequest c (elems (Cluster.Nodes c) ! j),
              poolsDefaultRequest c (elems (Cluster.Nodes c) ! j)]"
proof -
  let ?ns = "elems (Cluster.Nodes c)"
  let ?st1 = "nodeLoop e full cnum c (take j ?ns) (freshState s)"
  let ?poll = "pollNode e c (?ns ! j) (askedAt e full cnum c s j)"
  from here obtain p d where ok: "fst ?poll = Inr (p, d)"
    by (cases "fst ?poll") (auto simp: nodeFails_def)
  then have poll: "?poll = (Inr (p, d), snd ?poll)"
    by (metis prod.collapse)
  have reqs: "snd ?poll = askedAt e full cnum c s j @ [poolsRequest c (?ns ! j), poolsDefaultRequest c (?ns ! j)]"
    using ok by (rule pollNode_Inr_sent)
  have st1: "idle ?st1" "clusterSummary ?st1 = fst s"
    using idle_summary [of j c e full cnum s] j before by simp_all
  let ?final = "if full then fullReport cnum p d (?st1\<lparr>sent := snd ?poll\<rparr>)
                else briefReport cnum p d (?st1\<lparr>sent := snd ?poll\<rparr>)"
  have final: "nodeLoop e full cnum c ?ns (freshState s) = ?final"
    unfolding nodeLoop_stops [OF j before here] nodeLoop_take_Suc [OF j before]
    by (subst poll) (simp add: Let_def)
  have "\<not> idle ?final" by (rule report_not_idle)
  then have step: "clusterStep e full cnum c s = (clusterSummary ?final, sent ?final)"
    unfolding clusterStep_def final Let_def by (simp only: if_False)
  have "clusterSummary ?final =
        clusterSummary (if full then fullReport cnum p d (freshState s)
                        else briefReport cnum p d (freshState s))"
    by (rule report_summary_cong) (simp add: st1)
  moreover have "sent ?final = snd ?poll"
    by (simp only: report_sent) simp
  ultimately show ?thesis
    using ok reqs step by simp
qed

lemma clusterStep_exhausted:
  assumes "allNodesFail e full cnum c s"
  shows "fst (clusterStep e full cnum c s) =
           (fst s)\<lparr>Clusters := (Clusters (fst s))
              [cnum := ErrorRecord
                 \<lparr>TheCluster = c,
                  ErrMsg =
                    (if elems (Cluster.Nodes c) = [] then ''Unknown Error''
                     else Error (projl (fst (pollNode e c (last (elems (Cluster.Nodes c)))
                            (askedAt e full cnum c s (length (elems (Cluster.Nodes c)) - 1))))))\<rparr>]\<rparr> \<and>
         snd (clusterStep e full cnum c s) =
           askedAt e full cnum c s (length (elems (Cluster.Nodes c)))"
proof -
  let ?ns = "elems (Cluster.Nodes c)"
  let ?st = "nodeLoop e full cnum c ?ns (freshState s)"
  have all: "\<forall>i<length ?ns. nodeFails e full cnum c s i"
    using assms by (simp add: allNodesFail_def)
  have idle: "idle ?st" and same: "clusterSummary ?st = fst s"
    using idle_summary [of "length ?ns" c e full cnum s] all by simp_all
  have msg: "(case cerr ?st of Some err \<Rightarrow> Error err | None \<Rightarrow> ''Unknown Error'') =
        (if ?ns = [] then ''Unknown Error''
         else Error (projl (fst (pollNode e c (last ?ns) (askedAt e full cnum c s (length ?ns - 1))))))"
  proof (cases "?ns = []")
    case True
    then show ?thesis by simp
  next
    case False
    let ?j = "length ?ns - 1"
    have j: "?j < length ?ns" using False by simp
    have before: "\<forall>i<?j. nodeFails e full cnum c s i" using all by simp
    have fails: "isl (fst (pollNode e c (?ns ! ?j) (askedAt e full cnum c s ?j)))"
      using all j by (simp add: nodeFails_def)
    have "take (Suc ?j) ?ns = ?ns" using False by simp
    with nodeLoop_take_Suc [OF j before]
    have "cerr ?st = Some (projl (fst (pollNode e c (?ns ! ?j) (askedAt e full cnum c s ?j))))"
      using fails by (auto simp: Let_def split: prod.splits sum.splits)
    moreover have "?ns ! ?j = last ?ns" using False by (simp add: last_conv_nth)
    ultimately show ?thesis using False by simp
  qed
  have "clusterStep e full cnum c s =
        ((clusterSummary ?st)\<lparr>Clusters := (Clusters (clusterSummary ?st))
            [cnum := ErrorRecord \<lparr>TheCluster = c,
               ErrMsg = (case cerr ?st of Some err \<Rightarrow> Error err | None \<Rightarrow> ''Unknown Error'')\<rparr>]\<rparr>,
         sent ?st)"
    using idle by (simp add: clusterStep_def Let_def)
  then show ?thesis
    unfolding msg same by (simp add: askedAt_def)
qed

subsection \<open>The loop over the clusters\<close>

lemma sum_list_update_int:
  "i < length xs \<Longrightarrow>
   sum_list (map f (xs[i := v])) = sum_list (map f xs) - f (xs ! i) + (f v :: int)"
proof (induction xs arbitrary: i)
  case Nil
  then show ?case by simp
next
  case (Cons x xs)
  then show ?case by (cases i) auto
qed

lemma clusterLoop_append:
  "clusterLoop e full k (xs @ ys) s =
   clusterLoop e full (k + length xs) ys (clusterLoop e full k xs s)"
  by (induction xs arbitrary: k s) simp_all

lemma clusterLoop_nth_before:
  "i < k \<Longrightarrow> Clusters (fst (clusterLoop e full k cs s)) ! i = Clusters (fst s) ! i"
proof (induction cs arbitrary: k s)
  case Nil
  then show ?case by simp
next
  case (Cons c cs)
  obtain r where "Clusters (fst (clusterStep e full k c s)) = (Clusters (fst s))[k := r]"
    using clusterStep_effect [of e full k c s] by blast
  with Cons.prems have "Clusters (fst (clusterStep e full k c s)) ! i = Clusters (fst s) ! i"
    by simp
  with Cons.IH [of "k + 1" "clusterStep e full k c s"] Cons.prems show ?case by simp
qed

lemma clusterLoop_length:
  "length (Clusters (fst (clusterLoop e full k cs s))) = length (Clusters (fst s)) \<and>
   NumClusters (fst (clusterLoop e full k cs s)) = NumClusters (fst s)"
proof (induction cs arbitrary: k s)
  case Nil
  then show ?case by simp
next
  case (Cons c cs)
  obtain r where "Clusters (fst (clusterStep e full k c s)) = (Clusters (fst s))[k := r]"
    and "NumClusters (fst (clusterStep e full k c s)) = NumClusters (fst s)"
    using clusterStep_effect [of e full k c s] by blast
  with Cons.IH [of "k + 1" "clusterStep e full k c s"] show ?case by simp
qed

lemma reached_Suc:
  assumes "i < length (elems clusters)"
  shows "reached e full clusters (Suc i) =
         clusterStep e full i (elems clusters ! i) (reached e full clusters i)"
proof -
  have "take (Suc i) (elems clusters) = take i (elems clusters) @ [elems clusters ! i]"
    using assms by (simp add: take_Suc_conv_app_nth)
  then show ?thesis
    using assms by (simp add: reached_def clusterLoop_append)
qed

lemma summarize_reached:
  assumes "i \<le> length (elems clusters)"
  shows "summarize e full clusters =
         clusterLoop e full i (drop i (elems clusters)) (reached e full clusters i)"
proof -
  have "clusterLoop e full 0 (take i (elems clusters) @ drop i (elems clusters))
          (newSummary clusters, []) =
        clusterLoop e full i (drop i (elems clusters)) (reached e full clusters i)"
    unfolding clusterLoop_append reached_def using assms by simp
  then show ?thesis by (simp add: summarize_def)
qed

lemma reached_length:
  "length (Clusters (fst (reached e full clusters i))) = length (elems clusters)"
  by (simp add: reached_def clusterLoop_length newSummary_def)

text \<open>The record of cluster \<open>i\<close> in the summary is the one that round \<open>i\<close> stores.\<close>

lemma summarize_nth:
  assumes "i < length (elems clusters)"
  shows "\<exists>r nodes.
     Clusters (fst (summarize e full clusters)) ! i = r \<and>
     TotalNumNodes (fst (reached e full clusters (Suc i))) =
       TotalNumNodes (fst (reached e full clusters i)) + nodeCountOf r \<and>
     SummaryInfo.NodeVersions (fst (reached e full clusters (Suc i))) =
       briefVersions (SummaryInfo.NodeVersions (fst (reached e full clusters i))) nodes \<and>
     (if allNodesFail e full i (elems clusters ! i) (reached e full clusters i) then
        nodes = [] \<and>
        r = ErrorRecord
              \<lparr>TheCluster = elems clusters ! i,
               ErrMsg = (case cerr (nodeLoop e full i (elems clusters ! i)
                                      (elems (Cluster.Nodes (elems clusters ! i)))
                                      (freshState (reached e full clusters i))) of
                           Some err \<Rightarrow> Error err | None \<Rightarrow> ''Unknown Error'')\<rparr>
      else if full then (\<exists>x. r = FullRecord x) else (\<exists>b. r = BriefRecord b))"
proof -
  let ?s = "reached e full clusters i" and ?c = "elems clusters ! i"
  obtain r nodes where
    upd: "Clusters (fst (clusterStep e full i ?c ?s)) = (Clusters (fst ?s))[i := r]" and
    tot: "TotalNumNodes (fst (clusterStep e full i ?c ?s)) = TotalNumNodes (fst ?s) + nodeCountOf r" and
    ver: "SummaryInfo.NodeVersions (fst (clusterStep e full i ?c ?s)) =
            briefVersions (SummaryInfo.NodeVersions (fst ?s)) nodes" and
    shape: "if allNodesFail e full i ?c ?s then
        nodes = [] \<and>
        r = ErrorRecord
              \<lparr>TheCluster = ?c,
               ErrMsg = (case cerr (nodeLoop e full i ?c (elems (Cluster.Nodes ?c)) (freshState ?s)) of
                           Some err \<Rightarrow> Error err | None \<Rightarrow> ''Unknown Error'')\<rparr>
      else if full then (\<exists>x. r = FullRecord x) else (\<exists>b. r = BriefRecord b)"
    using clusterStep_effect [of e full i ?c ?s] by blast
  have "summarize e full clusters =
        clusterLoop e full (Suc i) (drop (Suc i) (elems clusters)) (reached e full clusters (Suc i))"
    using assms by (intro summarize_reached) simp
  then have "Clusters (fst (summarize e full clusters)) ! i =
             Clusters (fst (reached e full clusters (Suc i))) ! i"
    by (simp add: clusterLoop_nth_before)
  also have "\<dots> = (Clusters (fst ?s))[i := r] ! i"
    using assms upd by (simp add: reached_Suc)
  also have "\<dots> = r"
    using assms by (simp add: reached_length)
  finally have "Clusters (fst (summarize e full clusters)) ! i = r" .
  with tot ver shape show ?thesis
    unfolding reached_Suc [OF assms] by blast
qed

lemma summarize_length:
  "length (Clusters (fst (summarize e full clusters))) = length (elems clusters) \<and>
   NumClusters (fst (summarize e full clusters)) = len clusters"
  by (simp add: summarize_def clusterLoop_length newSummary_def)

text \<open>
  The tallies through the loop: the total is the sum of the node counts of the records
  and the sum of the values of the version map, as long as the records still to come are
  \<^verbatim>\<open>nil\<close>.
\<close>

lemma clusterLoop_tally:
  assumes "k + length cs \<le> length (Clusters (fst s))"
    and "\<forall>j. k \<le> j \<and> j < length (Clusters (fst s)) \<longrightarrow> Clusters (fst s) ! j = NilRecord"
    and "TotalNumNodes (fst s) = (\<Sum>r\<leftarrow>Clusters (fst s). nodeCountOf r)"
    and "TotalNumNodes (fst s) = sum_list (map snd (SummaryInfo.NodeVersions (fst s)))"
    and "distinct (map fst (SummaryInfo.NodeVersions (fst s)))"
  shows "TotalNumNodes (fst (clusterLoop e full k cs s)) =
           (\<Sum>r\<leftarrow>Clusters (fst (clusterLoop e full k cs s)). nodeCountOf r) \<and>
         TotalNumNodes (fst (clusterLoop e full k cs s)) =
           sum_list (map snd (SummaryInfo.NodeVersions (fst (clusterLoop e full k cs s)))) \<and>
         distinct (map fst (SummaryInfo.NodeVersions (fst (clusterLoop e full k cs s))))"
  using assms
proof (induction cs arbitrary: k s)
  case Nil
  then show ?case by simp
next
  case (Cons c cs)
  let ?s' = "clusterStep e full k c s"
  obtain r nodes where
    upd: "Clusters (fst ?s') = (Clusters (fst s))[k := r]" and
    tot: "TotalNumNodes (fst ?s') = TotalNumNodes (fst s) + nodeCountOf r" and
    ver: "SummaryInfo.NodeVersions (fst ?s') =
            briefVersions (SummaryInfo.NodeVersions (fst s)) nodes" and
    len: "int (length nodes) = nodeCountOf r"
    using clusterStep_effect [of e full k c s] by blast
  have k: "k < length (Clusters (fst s))" using Cons.prems(1) by simp
  then have nil: "Clusters (fst s) ! k = NilRecord" using Cons.prems(2) by simp
  have 1: "(k + 1) + length cs \<le> length (Clusters (fst ?s'))"
    using Cons.prems(1) upd by simp
  have 2: "\<forall>j. k + 1 \<le> j \<and> j < length (Clusters (fst ?s')) \<longrightarrow> Clusters (fst ?s') ! j = NilRecord"
    using Cons.prems(2) upd by simp
  have 3: "TotalNumNodes (fst ?s') = (\<Sum>r\<leftarrow>Clusters (fst ?s'). nodeCountOf r)"
    using Cons.prems(3) tot k nil by (simp add: upd sum_list_update_int)
  have 4: "TotalNumNodes (fst ?s') = sum_list (map snd (SummaryInfo.NodeVersions (fst ?s')))"
    using Cons.prems(4) tot len by (simp add: ver sum_briefVersions)
  have 5: "distinct (map fst (SummaryInfo.NodeVersions (fst ?s')))"
    using Cons.prems(5) by (simp add: ver distinct_briefVersions)
  from Cons.IH [OF 1 2 3 4 5] show ?case by simp
qed


text \<open>When not every node fails there is a first node that answers both calls.\<close>

lemma first_success:
  assumes "\<not> allNodesFail e full cnum c s"
  shows "\<exists>j<length (elems (Cluster.Nodes c)).
           (\<forall>k<j. nodeFails e full cnum c s k) \<and> \<not> nodeFails e full cnum c s j"
proof -
  let ?P = "\<lambda>j. j < length (elems (Cluster.Nodes c)) \<and> \<not> nodeFails e full cnum c s j"
  from assms have "\<exists>j. ?P j" by (auto simp: allNodesFail_def)
  then obtain j where j: "?P j" and least: "\<forall>k<j. \<not> ?P k"
    using exists_least_iff [of ?P] by blast
  from j least have "\<forall>k<j. nodeFails e full cnum c s k" by auto
  with j show ?thesis by blast
qed

lemma summarize_nth_step:
  assumes "i < length (elems clusters)"
  shows "Clusters (fst (summarize e full clusters)) ! i =
         Clusters (fst (clusterStep e full i (elems clusters ! i) (reached e full clusters i))) ! i"
proof -
  have "summarize e full clusters =
        clusterLoop e full (Suc i) (drop (Suc i) (elems clusters)) (reached e full clusters (Suc i))"
    using assms by (intro summarize_reached) simp
  then show ?thesis
    using assms by (simp add: clusterLoop_nth_before reached_Suc)
qed

subsection \<open>The report\<close>

text \<open>
  C1. The summary has one record for each configured cluster, at the index that the
  cluster has in the configuration. The record of a cluster is an error record, holding
  that cluster, when every node of the cluster, asked in its turn, failed one of the two
  calls; otherwise it is the full record (in a full report) or the brief record (in a
  brief report) built from the two payloads of the first node of that cluster that
  answered both calls, so that no cluster has both a successful record and an error
  record.
\<close>

theorem one_record_per_cluster:
  "length (Clusters (fst (summarize e full clusters))) = length (elems clusters) \<and>
   (\<forall>i<length (elems clusters).
      if allNodesFail e full i (elems clusters ! i) (reached e full clusters i)
      then \<exists>msg. Clusters (fst (summarize e full clusters)) ! i =
                   ErrorRecord \<lparr>TheCluster = elems clusters ! i, ErrMsg = msg\<rparr>
      else \<exists>j p d.
             j < length (elems (Cluster.Nodes (elems clusters ! i))) \<and>
             (\<forall>k<j. nodeFails e full i (elems clusters ! i) (reached e full clusters i) k) \<and>
             fst (pollNode e (elems clusters ! i) (elems (Cluster.Nodes (elems clusters ! i)) ! j)
                    (askedAt e full i (elems clusters ! i) (reached e full clusters i) j)) =
               Inr (p, d) \<and>
             Clusters (fst (summarize e full clusters)) ! i =
               (if full
                then FullRecord
                       (newClusterSummary p d (briefVersions [] (elems (PoolsDefault.Nodes d))))
                else BriefRecord (newBriefCluster p d)))"
proof (intro conjI allI impI)
  show "length (Clusters (fst (summarize e full clusters))) = length (elems clusters)"
    by (simp add: summarize_length)
next
  fix i assume i: "i < length (elems clusters)"
  let ?c = "elems clusters ! i" and ?s = "reached e full clusters i"
  let ?rec = "Clusters (fst (summarize e full clusters)) ! i"
  show "if allNodesFail e full i ?c ?s
      then \<exists>msg. ?rec = ErrorRecord \<lparr>TheCluster = ?c, ErrMsg = msg\<rparr>
      else \<exists>j p d.
             j < length (elems (Cluster.Nodes ?c)) \<and>
             (\<forall>k<j. nodeFails e full i ?c ?s k) \<and>
             fst (pollNode e ?c (elems (Cluster.Nodes ?c) ! j) (askedAt e full i ?c ?s j)) =
               Inr (p, d) \<and>
             ?rec =
               (if full
                then FullRecord
                       (newClusterSummary p d (briefVersions [] (elems (PoolsDefault.Nodes d))))
                else BriefRecord (newBriefCluster p d))"
  proof (cases "allNodesFail e full i ?c ?s")
    case True
    with summarize_nth [OF i, of e full] show ?thesis by auto
  next
    case False
    then obtain j where j: "j < length (elems (Cluster.Nodes ?c))"
      and before: "\<forall>k<j. nodeFails e full i ?c ?s k"
      and here: "\<not> nodeFails e full i ?c ?s j"
      using first_success by blast
    from clusterStep_success [OF j before here]
    obtain p d where
      poll: "fst (pollNode e ?c (elems (Cluster.Nodes ?c) ! j) (askedAt e full i ?c ?s j)) = Inr (p, d)"
      and step: "fst (clusterStep e full i ?c ?s) =
             clusterSummary (if full then fullReport i p d (freshState ?s)
                             else briefReport i p d (freshState ?s))"
      by blast
    have "i < length (Clusters (fst ?s))"
      using i by (simp add: reached_length)
    then have "Clusters (fst (clusterStep e full i ?c ?s)) ! i =
               (if full
                then FullRecord
                       (newClusterSummary p d (briefVersions [] (elems (PoolsDefault.Nodes d))))
                else BriefRecord (newBriefCluster p d))"
      unfolding step by (cases full) (simp_all add: fullReport_simps briefReport_simps)
    then have "?rec =
               (if full
                then FullRecord
                       (newClusterSummary p d (briefVersions [] (elems (PoolsDefault.Nodes d))))
                else BriefRecord (newBriefCluster p d))"
      by (simp only: summarize_nth_step [OF i])
    with False j before poll show ?thesis by auto
  qed
qed

text \<open>Unfolding the definitions on the small fleet.\<close>

lemmas demo_defs = demo_env_def demo_Do_def demo_clusters_def demo_pools_def demo_default_def
  demo_refused_def demo_untrusted_def demo_syntax_error_def

lemmas run_defs = summarize_def reached_def elems_def newSummary_def len_def clusterStep_def
  freshState_def nodeLoop.simps pollNode_def GetPoolsData_def GetPoolsDefaultData_def
  executeGet_def executeRequest_def CreateRestClient_def HasPrefix_def StatusOK_def
  StatusCreated_def StatusAccepted_def StatusBadRequest_def StatusForbidden_def
  StatusUnauthorized_def StatusInternalServerError_def briefReport_def fullReport_def
  newBriefCluster_def newClusterSummary_def Let_def allNodesFail_def nodeFails_def askedAt_def
  All_less_Suc poolsRequest_def poolsDefaultRequest_def

text \<open>
  The theorem on the small fleet, in a brief report: three records; node \<^verbatim>\<open>b\<close> answers for
  the first cluster, which gets a brief record; both nodes of the second cluster fail,
  and it gets an error record that holds it.
\<close>

theorem one_record_per_cluster_witness:
  "length (Clusters (fst (summarize demo_env False (ClusterList.Clusters demo_clusters)))) = 3 \<and>
   \<not> allNodesFail demo_env False 0 (elems (ClusterList.Clusters demo_clusters) ! 0)
        (reached demo_env False (ClusterList.Clusters demo_clusters) 0) \<and>
   (\<exists>b. Clusters (fst (summarize demo_env False (ClusterList.Clusters demo_clusters))) ! 0 =
          BriefRecord b) \<and>
   allNodesFail demo_env False 1 (elems (ClusterList.Clusters demo_clusters) ! 1)
        (reached demo_env False (ClusterList.Clusters demo_clusters) 1) \<and>
   (\<exists>msg. Clusters (fst (summarize demo_env False (ClusterList.Clusters demo_clusters))) ! 1 =
      ErrorRecord \<lparr>TheCluster = elems (ClusterList.Clusters demo_clusters) ! 1, ErrMsg = msg\<rparr>)"
proof -
  let ?cs = "ClusterList.Clusters demo_clusters"
  have n: "length (elems ?cs) = 3"
    by (simp add: demo_clusters_def elems_def)
  have f0: "\<not> allNodesFail demo_env False 0 (elems ?cs ! 0) (reached demo_env False ?cs 0)"
    by (simp add: run_defs demo_defs)
  have f1: "allNodesFail demo_env False 1 (elems ?cs ! 1) (reached demo_env False ?cs 1)"
    by (simp add: run_defs demo_defs)
  note inst = one_record_per_cluster [of demo_env False ?cs]
  from inst have len: "length (Clusters (fst (summarize demo_env False ?cs))) = length (elems ?cs)"
    by blast
  from inst n f0 have r0: "\<exists>b. Clusters (fst (summarize demo_env False ?cs)) ! 0 = BriefRecord b"
    by (auto dest!: spec [of _ 0])
  from inst n f1 have r1: "\<exists>msg. Clusters (fst (summarize demo_env False ?cs)) ! 1 =
      ErrorRecord \<lparr>TheCluster = elems ?cs ! 1, ErrMsg = msg\<rparr>"
    by (auto dest!: spec [of _ 1])
  from len n have l3: "length (Clusters (fst (summarize demo_env False ?cs))) = 3"
    by (simp only:)
  show ?thesis
    by (intro conjI) (rule l3 f0 r0 f1 r1)+
qed

text \<open>
  C2. After the loop over the clusters, \<^verbatim>\<open>TotalNumNodes\<close> is the sum of the node counts
  of the full and brief records (an error record counts no node), and it is the sum of
  the values of the version map of the summary, whose keys are distinct.
  \<^verbatim>\<open>NumClusters\<close> is the number of configured clusters. The round of a cluster that gets
  an error record leaves \<^verbatim>\<open>TotalNumNodes\<close> and the version map as it found them.
\<close>

theorem node_totals:
  "TotalNumNodes (fst (summarize e full clusters)) =
     (\<Sum>r\<leftarrow>Clusters (fst (summarize e full clusters)). nodeCountOf r)
   \<and> TotalNumNodes (fst (summarize e full clusters)) =
       sum_list (map snd (SummaryInfo.NodeVersions (fst (summarize e full clusters))))
   \<and> distinct (map fst (SummaryInfo.NodeVersions (fst (summarize e full clusters))))
   \<and> NumClusters (fst (summarize e full clusters)) = len clusters
   \<and> (\<forall>i<length (elems clusters).
         (\<exists>x. Clusters (fst (summarize e full clusters)) ! i = ErrorRecord x) \<longrightarrow>
         TotalNumNodes (fst (reached e full clusters (Suc i))) =
           TotalNumNodes (fst (reached e full clusters i)) \<and>
         SummaryInfo.NodeVersions (fst (reached e full clusters (Suc i))) =
           SummaryInfo.NodeVersions (fst (reached e full clusters i)))"
proof -
  have tally: "TotalNumNodes (fst (summarize e full clusters)) =
     (\<Sum>r\<leftarrow>Clusters (fst (summarize e full clusters)). nodeCountOf r)
   \<and> TotalNumNodes (fst (summarize e full clusters)) =
       sum_list (map snd (SummaryInfo.NodeVersions (fst (summarize e full clusters))))
   \<and> distinct (map fst (SummaryInfo.NodeVersions (fst (summarize e full clusters))))"
    unfolding summarize_def
    by (rule clusterLoop_tally) (simp_all add: newSummary_def sum_list_replicate)
  have errors: "TotalNumNodes (fst (reached e full clusters (Suc i))) =
           TotalNumNodes (fst (reached e full clusters i)) \<and>
         SummaryInfo.NodeVersions (fst (reached e full clusters (Suc i))) =
           SummaryInfo.NodeVersions (fst (reached e full clusters i))"
    if "i < length (elems clusters)"
      and "\<exists>x. Clusters (fst (summarize e full clusters)) ! i = ErrorRecord x" for i
    using summarize_nth [OF that(1), of e full] that(2)
    by (auto split: if_splits)
  from tally errors show ?thesis
    by (simp add: summarize_length)
qed

text \<open>
  The theorem on the small fleet: two nodes in all, one of each version, three clusters;
  the second cluster has an error record and its round leaves the total alone.
\<close>

theorem node_totals_witness:
  "TotalNumNodes (fst (summarize demo_env False (ClusterList.Clusters demo_clusters))) = 2 \<and>
   sum_list (map nodeCountOf
     (Clusters (fst (summarize demo_env False (ClusterList.Clusters demo_clusters))))) = 2 \<and>
   SummaryInfo.NodeVersions (fst (summarize demo_env False (ClusterList.Clusters demo_clusters))) =
     [(''6.1.0'', 1), (''6.6.0'', 1)] \<and>
   NumClusters (fst (summarize demo_env False (ClusterList.Clusters demo_clusters))) = 3 \<and>
   (\<exists>x. Clusters (fst (summarize demo_env False (ClusterList.Clusters demo_clusters))) ! 1 =
          ErrorRecord x) \<and>
   TotalNumNodes (fst (reached demo_env False (ClusterList.Clusters demo_clusters) 2)) =
     TotalNumNodes (fst (reached demo_env False (ClusterList.Clusters demo_clusters) 1))"
proof -
  let ?cs = "ClusterList.Clusters demo_clusters"
  have n: "(1::nat) < length (elems ?cs)"
    by (simp add: demo_clusters_def elems_def)
  have t: "TotalNumNodes (fst (summarize demo_env False ?cs)) = 2"
    by (simp add: run_defs demo_defs)
  have v: "SummaryInfo.NodeVersions (fst (summarize demo_env False ?cs)) =
     [(''6.1.0'', 1), (''6.6.0'', 1)]"
    by (simp add: run_defs demo_defs demo_old_node_def demo_new_node_def)
  have e: "\<exists>x. Clusters (fst (summarize demo_env False ?cs)) ! 1 = ErrorRecord x"
    by (simp add: run_defs demo_defs)
  have k: "len ?cs = 3"
    by (simp add: demo_clusters_def elems_def len_def)
  from node_totals [of demo_env False ?cs]
  have sum: "TotalNumNodes (fst (summarize demo_env False ?cs)) =
               sum_list (map nodeCountOf (Clusters (fst (summarize demo_env False ?cs))))"
    and num: "NumClusters (fst (summarize demo_env False ?cs)) = len ?cs"
    and err: "\<And>i. i < length (elems ?cs) \<Longrightarrow>
         (\<exists>x. Clusters (fst (summarize demo_env False ?cs)) ! i = ErrorRecord x) \<Longrightarrow>
         TotalNumNodes (fst (reached demo_env False ?cs (Suc i))) =
           TotalNumNodes (fst (reached demo_env False ?cs i))"
    by blast+
  from err [OF n e] sum num t v e k show ?thesis
    by (simp add: numeral_2_eq_2)
qed

text \<open>
  C3. A round of the loop over the clusters asks the nodes in the order of the list.
  \<^item> The loop starts from the requests sent so far, and while every node before has
    failed, the turn of node \<open>j\<close> adds the requests of its calls and nothing else: none
    when the request for \<^verbatim>\<open>/pools\<close> cannot be built, the one for \<^verbatim>\<open>/pools\<close> when that call
    is sent and fails, both when it succeeds.
  \<^item> At the first node where both calls succeed the loop stops: the summary is the one
    that the report of that node's payloads gives, and the last requests sent are the two
    of that node, so no later node is contacted.
  \<^item> When every node fails, the cluster gets an error record whose message is that of
    the error of the last node, or \<^verbatim>\<open>Unknown Error\<close> when the list of nodes is empty.
\<close>

theorem node_failover:
  "askedAt e full cnum c s 0 = snd s
   \<and> (\<forall>j<length (elems (Cluster.Nodes c)).
         (\<forall>i<j. nodeFails e full cnum c s i) \<longrightarrow>
         askedAt e full cnum c s (Suc j) =
           snd (pollNode e c (elems (Cluster.Nodes c) ! j) (askedAt e full cnum c s j)) \<and>
         (\<exists>k\<le>2. askedAt e full cnum c s (Suc j) =
            askedAt e full cnum c s j @
            take k [poolsRequest c (elems (Cluster.Nodes c) ! j),
                    poolsDefaultRequest c (elems (Cluster.Nodes c) ! j)]))
   \<and> (\<forall>j<length (elems (Cluster.Nodes c)).
         (\<forall>i<j. nodeFails e full cnum c s i) \<and> \<not> nodeFails e full cnum c s j \<longrightarrow>
         (\<exists>p d. fst (pollNode e c (elems (Cluster.Nodes c) ! j) (askedAt e full cnum c s j)) =
                   Inr (p, d) \<and>
                 fst (clusterStep e full cnum c s) =
                   clusterSummary (if full then fullReport cnum p d (freshState s)
                                   else briefReport cnum p d (freshState s)) \<and>
                 snd (clusterStep e full cnum c s) =
                   askedAt e full cnum c s j @
                   [poolsRequest c (elems (Cluster.Nodes c) ! j),
                    poolsDefaultRequest c (elems (Cluster.Nodes c) ! j)]))
   \<and> (allNodesFail e full cnum c s \<longrightarrow>
         fst (clusterStep e full cnum c s) =
           (fst s)\<lparr>Clusters := (Clusters (fst s))
              [cnum := ErrorRecord
                 \<lparr>TheCluster = c,
                  ErrMsg =
                    (if elems (Cluster.Nodes c) = [] then ''Unknown Error''
                     else Error (projl (fst (pollNode e c (last (elems (Cluster.Nodes c)))
                            (askedAt e full cnum c s (length (elems (Cluster.Nodes c)) - 1))))))\<rparr>]\<rparr> \<and>
         snd (clusterStep e full cnum c s) =
           askedAt e full cnum c s (length (elems (Cluster.Nodes c))))"
proof (intro conjI allI impI)
  show "askedAt e full cnum c s 0 = snd s"
    by (simp add: askedAt_def)
next
  fix j
  assume "j < length (elems (Cluster.Nodes c))" "\<forall>i<j. nodeFails e full cnum c s i"
  then show "askedAt e full cnum c s (Suc j) =
      snd (pollNode e c (elems (Cluster.Nodes c) ! j) (askedAt e full cnum c s j))"
    by (rule askedAt_Suc)
  then show "\<exists>k\<le>2. askedAt e full cnum c s (Suc j) =
      askedAt e full cnum c s j @
      take k [poolsRequest c (elems (Cluster.Nodes c) ! j),
              poolsDefaultRequest c (elems (Cluster.Nodes c) ! j)]"
    using pollNode_sent [of e c "elems (Cluster.Nodes c) ! j" "askedAt e full cnum c s j"]
    by simp
next
  fix j
  assume "j < length (elems (Cluster.Nodes c))"
    "(\<forall>i<j. nodeFails e full cnum c s i) \<and> \<not> nodeFails e full cnum c s j"
  then show "\<exists>p d. fst (pollNode e c (elems (Cluster.Nodes c) ! j) (askedAt e full cnum c s j)) =
                   Inr (p, d) \<and>
                 fst (clusterStep e full cnum c s) =
                   clusterSummary (if full then fullReport cnum p d (freshState s)
                                   else briefReport cnum p d (freshState s)) \<and>
                 snd (clusterStep e full cnum c s) =
                   askedAt e full cnum c s j @
                   [poolsRequest c (elems (Cluster.Nodes c) ! j),
                    poolsDefaultRequest c (elems (Cluster.Nodes c) ! j)]"
    using clusterStep_success [of j c e full cnum s] by blast
next
  assume "allNodesFail e full cnum c s"
  then show "fst (clusterStep e full cnum c s) =
           (fst s)\<lparr>Clusters := (Clusters (fst s))
              [cnum := ErrorRecord
                 \<lparr>TheCluster = c,
                  ErrMsg =
                    (if elems (Cluster.Nodes c) = [] then ''Unknown Error''
                     else Error (projl (fst (pollNode e c (last (elems (Cluster.Nodes c)))
                            (askedAt e full cnum c s (length (elems (Cluster.Nodes c)) - 1))))))\<rparr>]\<rparr>"
    and "snd (clusterStep e full cnum c s) =
           askedAt e full cnum c s (length (elems (Cluster.Nodes c)))"
    using clusterStep_exhausted [of e full cnum c s] by simp_all
qed

text \<open>
  The theorem on the three clusters of the small fleet. In the first, node \<^verbatim>\<open>a\<close> fails,
  node \<^verbatim>\<open>b\<close> answers, and the requests sent are one to \<^verbatim>\<open>a\<close> and two to \<^verbatim>\<open>b\<close>; node
  \<^verbatim>\<open>c\<close> is not contacted. In the second both nodes fail, and the message of the error
  record is that of the 401 of the last node. The third has no node, and the message is
  \<^verbatim>\<open>Unknown Error\<close>.
\<close>

theorem node_failover_witness:
  "nodeFails demo_env False 0 (elems (ClusterList.Clusters demo_clusters) ! 0)
     (newSummary (ClusterList.Clusters demo_clusters), []) 0 \<and>
   \<not> nodeFails demo_env False 0 (elems (ClusterList.Clusters demo_clusters) ! 0)
     (newSummary (ClusterList.Clusters demo_clusters), []) 1 \<and>
   snd (clusterStep demo_env False 0 (elems (ClusterList.Clusters demo_clusters) ! 0)
          (newSummary (ClusterList.Clusters demo_clusters), [])) =
     [poolsRequest (elems (ClusterList.Clusters demo_clusters) ! 0) ''http://a:8091'',
      poolsRequest (elems (ClusterList.Clusters demo_clusters) ! 0) ''http://b:8091'',
      poolsDefaultRequest (elems (ClusterList.Clusters demo_clusters) ! 0) ''http://b:8091''] \<and>
   allNodesFail demo_env False 1 (elems (ClusterList.Clusters demo_clusters) ! 1)
     (reached demo_env False (ClusterList.Clusters demo_clusters) 1) \<and>
   Clusters (fst (clusterStep demo_env False 1 (elems (ClusterList.Clusters demo_clusters) ! 1)
                   (reached demo_env False (ClusterList.Clusters demo_clusters) 1))) ! 1 =
     ErrorRecord
       \<lparr>TheCluster = elems (ClusterList.Clusters demo_clusters) ! 1,
        ErrMsg = ''Authentication error executing '' @ dquote @ ''GET http://d:8091/pools'' @
                 dquote @ '' check username and password''\<rparr> \<and>
   allNodesFail demo_env False 2 (elems (ClusterList.Clusters demo_clusters) ! 2)
     (reached demo_env False (ClusterList.Clusters demo_clusters) 2) \<and>
   Clusters (fst (clusterStep demo_env False 2 (elems (ClusterList.Clusters demo_clusters) ! 2)
                   (reached demo_env False (ClusterList.Clusters demo_clusters) 2))) ! 2 =
     ErrorRecord
       \<lparr>TheCluster = elems (ClusterList.Clusters demo_clusters) ! 2, ErrMsg = ''Unknown Error''\<rparr>"
proof -
  let ?cs = "ClusterList.Clusters demo_clusters"
  let ?c = "elems ?cs ! 0"
  let ?s = "(newSummary ?cs, [])"
  have ns: "elems (Cluster.Nodes ?c) = [''http://a:8091'', ''http://b:8091'', ''http://c:8091'']"
    by (simp add: demo_clusters_def elems_def)
  have f0: "nodeFails demo_env False 0 ?c ?s 0"
    by (simp add: run_defs demo_defs)
  have f1: "\<not> nodeFails demo_env False 0 ?c ?s 1"
    by (simp add: run_defs demo_defs)
  have a1: "askedAt demo_env False 0 ?c ?s 1 = [poolsRequest ?c ''http://a:8091'']"
    by (simp add: run_defs demo_defs)
  from node_failover [of demo_env False 0 ?c ?s]
  have "\<And>j. j < length (elems (Cluster.Nodes ?c)) \<Longrightarrow>
          (\<forall>i<j. nodeFails demo_env False 0 ?c ?s i) \<and> \<not> nodeFails demo_env False 0 ?c ?s j \<Longrightarrow>
          snd (clusterStep demo_env False 0 ?c ?s) =
            askedAt demo_env False 0 ?c ?s j @
            [poolsRequest ?c (elems (Cluster.Nodes ?c) ! j),
             poolsDefaultRequest ?c (elems (Cluster.Nodes ?c) ! j)]"
    by blast
  from this [of 1] f0 f1 have "snd (clusterStep demo_env False 0 ?c ?s) =
            askedAt demo_env False 0 ?c ?s 1 @
            [poolsRequest ?c (elems (Cluster.Nodes ?c) ! 1),
             poolsDefaultRequest ?c (elems (Cluster.Nodes ?c) ! 1)]"
    by (simp add: ns)
  then have first: "snd (clusterStep demo_env False 0 ?c ?s) =
     [poolsRequest ?c ''http://a:8091'', poolsRequest ?c ''http://b:8091'',
      poolsDefaultRequest ?c ''http://b:8091'']"
    by (simp only: a1 ns) simp
  let ?c1 = "elems ?cs ! 1" and ?s1 = "reached demo_env False ?cs 1"
  have all1: "allNodesFail demo_env False 1 ?c1 ?s1"
    by (simp add: run_defs demo_defs)
  have len1: "length (Clusters (fst ?s1)) = 3"
    by (simp add: reached_length) (simp add: demo_clusters_def elems_def)
  have msg1: "(if elems (Cluster.Nodes ?c1) = [] then ''Unknown Error''
               else Error (projl (fst (pollNode demo_env ?c1 (last (elems (Cluster.Nodes ?c1)))
                      (askedAt demo_env False 1 ?c1 ?s1 (length (elems (Cluster.Nodes ?c1)) - 1)))))) =
              ''Authentication error executing '' @ dquote @ ''GET http://d:8091/pools'' @
                 dquote @ '' check username and password''"
    by (simp add: run_defs demo_defs)
  from node_failover [of demo_env False 1 ?c1 ?s1] all1
  have "fst (clusterStep demo_env False 1 ?c1 ?s1) =
          (fst ?s1)\<lparr>Clusters := (Clusters (fst ?s1))
              [1 := ErrorRecord
                 \<lparr>TheCluster = ?c1,
                  ErrMsg =
                    (if elems (Cluster.Nodes ?c1) = [] then ''Unknown Error''
                     else Error (projl (fst (pollNode demo_env ?c1 (last (elems (Cluster.Nodes ?c1)))
                            (askedAt demo_env False 1 ?c1 ?s1 (length (elems (Cluster.Nodes ?c1)) - 1))))))\<rparr>]\<rparr>"
    by blast
  then have second: "Clusters (fst (clusterStep demo_env False 1 ?c1 ?s1)) ! 1 =
     ErrorRecord
       \<lparr>TheCluster = ?c1,
        ErrMsg = ''Authentication error executing '' @ dquote @ ''GET http://d:8091/pools'' @
                 dquote @ '' check username and password''\<rparr>"
    unfolding msg1 using len1 by simp
  let ?c2 = "elems ?cs ! 2" and ?s2 = "reached demo_env False ?cs 2"
  have all2: "allNodesFail demo_env False 2 ?c2 ?s2"
    by (simp add: allNodesFail_def demo_clusters_def elems_def)
  have len2: "length (Clusters (fst ?s2)) = 3"
    by (simp add: reached_length) (simp add: demo_clusters_def elems_def)
  have none2: "elems (Cluster.Nodes ?c2) = []"
    by (simp add: demo_clusters_def elems_def)
  from node_failover [of demo_env False 2 ?c2 ?s2] all2
  have "fst (clusterStep demo_env False 2 ?c2 ?s2) =
          (fst ?s2)\<lparr>Clusters := (Clusters (fst ?s2))
              [2 := ErrorRecord
                 \<lparr>TheCluster = ?c2,
                  ErrMsg =
                    (if elems (Cluster.Nodes ?c2) = [] then ''Unknown Error''
                     else Error (projl (fst (pollNode demo_env ?c2 (last (elems (Cluster.Nodes ?c2)))
                            (askedAt demo_env False 2 ?c2 ?s2 (length (elems (Cluster.Nodes ?c2)) - 1))))))\<rparr>]\<rparr>"
    by blast
  then have third: "Clusters (fst (clusterStep demo_env False 2 ?c2 ?s2)) ! 2 =
     ErrorRecord \<lparr>TheCluster = ?c2, ErrMsg = ''Unknown Error''\<rparr>"
    using len2 none2 by simp
  show ?thesis
    by (intro conjI) (rule f0 f1 first all1 second all2 third)+
qed

subsection \<open>The CSV output\<close>

text \<open>What \<^verbatim>\<open>%.1f\<close> writes is a number with one decimal place, and has no tab in it.\<close>

lemma digit_is_digit: "n < 10 \<Longrightarrow> is_digit (''0123456789'' ! n)"
proof -
  assume "n < 10"
  then have "n \<in> {0, 1, 2, 3, 4, 5, 6, 7, 8, 9}" by auto
  then show ?thesis by (auto simp: is_digit_def)
qed

lemma decimal_digits: "list_all is_digit (decimal n) \<and> decimal n \<noteq> []"
proof (induction n rule: decimal.induct)
  case (1 n)
  show ?case
  proof (cases "n < 10")
    case True
    then show ?thesis by (subst (1 2) decimal.simps) (simp add: digit_is_digit)
  next
    case False
    with 1 show ?thesis by (subst (1 2) decimal.simps) (simp add: digit_is_digit)
  qed
qed

lemma is_digit_not_minus: "is_digit c \<Longrightarrow> c \<noteq> CHR ''-''"
  by (auto simp: is_digit_def)

lemma one_decimal_fmt_f1: "one_decimal (fmt_f1 x)"
proof -
  let ?ds = "decimal (tenths x div 10)" and ?d = "''0123456789'' ! (tenths x mod 10)"
  have ds: "list_all is_digit ?ds" "?ds \<noteq> []" using decimal_digits by auto
  have d: "is_digit ?d" by (simp add: digit_is_digit)
  have hd: "take 1 (?ds @ ''.'' @ [?d]) \<noteq> ''-''"
    using ds by (cases ?ds) (auto dest: is_digit_not_minus)
  have body: "3 \<le> length (?ds @ ''.'' @ [?d]) \<and>
              list_all is_digit (take (length (?ds @ ''.'' @ [?d]) - 2) (?ds @ ''.'' @ [?d])) \<and>
              (?ds @ ''.'' @ [?d]) ! (length (?ds @ ''.'' @ [?d]) - 2) = CHR ''.'' \<and>
              is_digit (last (?ds @ ''.'' @ [?d]))"
    using ds d by (cases ?ds) (auto simp: nth_append)
  show ?thesis
  proof (cases "negative x")
    case True
    then have "fmt_f1 x = ''-'' @ ?ds @ ''.'' @ [?d]" by (simp add: fmt_f1_def)
    then show ?thesis using body by (simp add: one_decimal_def Let_def)
  next
    case False
    then have "fmt_f1 x = ?ds @ ''.'' @ [?d]" by (simp add: fmt_f1_def)
    then show ?thesis using body hd by (simp add: one_decimal_def Let_def)
  qed
qed

lemma is_digit_not_tab: "is_digit c \<Longrightarrow> c \<noteq> CHR 0x09"
  by (auto simp: is_digit_def)

lemma no_tab_decimal: "CHR 0x09 \<notin> set (decimal n)"
  using decimal_digits [of n] by (auto simp: list_all_iff dest: is_digit_not_tab)

lemma no_tab_fmt_d: "CHR 0x09 \<notin> set (fmt_d i)"
  by (simp add: fmt_d_def no_tab_decimal)

lemma no_tab_fmt_f1: "CHR 0x09 \<notin> set (fmt_f1 x)"
proof -
  have "''0123456789'' ! (tenths x mod 10) \<noteq> CHR 0x09"
    by (rule is_digit_not_tab) (simp add: digit_is_digit)
  then show ?thesis
    by (auto simp: fmt_f1_def no_tab_decimal)
qed

lemma fmt_f1_not_NA: "fmt_f1 x \<noteq> ''N/A''"
  using one_decimal_fmt_f1 [of x] by (auto simp: one_decimal_def Let_def is_digit_def)

text \<open>The columns of a line, when neither the UUID nor the host name has a tab in it.\<close>

lemma split_on_nonempty: "split_on c s \<noteq> []"
  by (induction s) (auto split: list.splits)

lemma split_on_none: "c \<notin> set a \<Longrightarrow> split_on c a = [a]"
  by (induction a) auto

lemma split_on_append: "c \<notin> set a \<Longrightarrow> split_on c (a @ c # rest) = a # split_on c rest"
  by (induction a) auto

lemma columns_csvRow:
  assumes "CHR 0x09 \<notin> set (UUID cluster)" and "CHR 0x09 \<notin> set (BriefNode.Name node)"
  shows "columns (csvRow cnum cluster node) =
     [fmt_d (int cnum), UUID cluster, fmt_d (Size cluster), BriefNode.Name node,
      if BriefNode.Version node < ''6.5'' then ''N/A'' else fmt_f1 (Cores node),
      fmt_f1 (BriefNode.RAM node)]"
proof -
  let ?cores = "if BriefNode.Version node < ''6.5'' then ''N/A'' else fmt_f1 (Cores node)"
  have row: "csvRow cnum cluster node =
      (fmt_d (int cnum) @ CHR 0x09 # UUID cluster @ CHR 0x09 # fmt_d (Size cluster) @ CHR 0x09 #
       BriefNode.Name node @ CHR 0x09 # ?cores @ CHR 0x09 # fmt_f1 (BriefNode.RAM node)) @ newline"
    by (simp add: csvRow_def tab_def)
  have cores: "CHR 0x09 \<notin> set ?cores" by (simp add: no_tab_fmt_f1)
  have "columns (csvRow cnum cluster node) =
      split_on (CHR 0x09)
        (fmt_d (int cnum) @ CHR 0x09 # UUID cluster @ CHR 0x09 # fmt_d (Size cluster) @ CHR 0x09 #
         BriefNode.Name node @ CHR 0x09 # ?cores @ CHR 0x09 # fmt_f1 (BriefNode.RAM node))"
    unfolding columns_def row newline_def by (simp only: butlast_snoc)
  also have "\<dots> = [fmt_d (int cnum), UUID cluster, fmt_d (Size cluster), BriefNode.Name node,
      ?cores, fmt_f1 (BriefNode.RAM node)]"
    using assms cores
    by (simp only: split_on_append split_on_none no_tab_fmt_d no_tab_fmt_f1 not_False_eq_True)
  finally show ?thesis .
qed

text \<open>The lines of the CSV output: those of the nodes of the brief records, in order.\<close>

lemma csvRows_rows:
  "csvRows k rs =
     concat (map (\<lambda>(i, r). case r of
                    BriefRecord cluster \<Rightarrow>
                      concat (map (csvRow i cluster) (elems (BriefCluster.Nodes cluster)))
                  | _ \<Rightarrow> [])
             (zip [k..<k + length rs] rs))"
proof (induction rs arbitrary: k)
  case Nil
  then show ?case by simp
next
  case (Cons r rs)
  have "[k..<k + length (r # rs)] = k # [k + 1..<(k + 1) + length rs]"
    by (simp add: upt_rec)
  then show ?case
    using Cons.IH [of "k + 1"] by (cases r) simp_all
qed

text \<open>
  C4. The CSV output is the header and, for each brief record in order, one line for each
  of its nodes. In the line of a node (whose UUID and host name hold no tab, so that the
  columns are those of the format), the fifth column, \<^verbatim>\<open>cpu_cores\<close>, is \<^verbatim>\<open>N/A\<close> exactly
  when the version of the node is lexicographically less than \<^verbatim>\<open>6.5\<close>; otherwise it is
  the number of cores written with one decimal place. Version \<^verbatim>\<open>6.1.0\<close> gives \<^verbatim>\<open>N/A\<close>
  and version \<^verbatim>\<open>6.6.0\<close> gives a number.
\<close>

theorem cores_column:
  "csvBody summary =
     csvHeader @
     concat (map (\<lambda>(cnum, r). case r of
                    BriefRecord cluster \<Rightarrow>
                      concat (map (csvRow cnum cluster) (elems (BriefCluster.Nodes cluster)))
                  | _ \<Rightarrow> [])
             (zip [0..<length (Clusters summary)] (Clusters summary)))
   \<and> (CHR 0x09 \<notin> set (UUID cluster) \<and> CHR 0x09 \<notin> set (BriefNode.Name node) \<longrightarrow>
        length (columns (csvRow cnum cluster node)) = 6 \<and>
        (columns (csvRow cnum cluster node) ! 4 = ''N/A'' \<longleftrightarrow> BriefNode.Version node < ''6.5'') \<and>
        (\<not> BriefNode.Version node < ''6.5'' \<longrightarrow>
           columns (csvRow cnum cluster node) ! 4 = fmt_f1 (Cores node) \<and>
           one_decimal (columns (csvRow cnum cluster node) ! 4)) \<and>
        (BriefNode.Version node = ''6.1.0'' \<longrightarrow> columns (csvRow cnum cluster node) ! 4 = ''N/A'') \<and>
        (BriefNode.Version node = ''6.6.0'' \<longrightarrow>
           columns (csvRow cnum cluster node) ! 4 = fmt_f1 (Cores node) \<and>
           one_decimal (columns (csvRow cnum cluster node) ! 4)))"
proof (intro conjI impI)
  show "csvBody summary =
     csvHeader @
     concat (map (\<lambda>(cnum, r). case r of
                    BriefRecord cluster \<Rightarrow>
                      concat (map (csvRow cnum cluster) (elems (BriefCluster.Nodes cluster)))
                  | _ \<Rightarrow> [])
             (zip [0..<length (Clusters summary)] (Clusters summary)))"
    using csvRows_rows [of 0 "Clusters summary"] by (simp add: csvBody_def)
next
  assume tabs: "CHR 0x09 \<notin> set (UUID cluster) \<and> CHR 0x09 \<notin> set (BriefNode.Name node)"
  then have cols: "columns (csvRow cnum cluster node) =
     [fmt_d (int cnum), UUID cluster, fmt_d (Size cluster), BriefNode.Name node,
      if BriefNode.Version node < ''6.5'' then ''N/A'' else fmt_f1 (Cores node),
      fmt_f1 (BriefNode.RAM node)]"
    by (simp add: columns_csvRow)
  show "length (columns (csvRow cnum cluster node)) = 6"
    by (simp add: cols)
  show "columns (csvRow cnum cluster node) ! 4 = ''N/A'' \<longleftrightarrow> BriefNode.Version node < ''6.5''"
    using fmt_f1_not_NA [of "Cores node"] by (simp add: cols)
  show "columns (csvRow cnum cluster node) ! 4 = fmt_f1 (Cores node)"
    and "one_decimal (columns (csvRow cnum cluster node) ! 4)"
    if "\<not> BriefNode.Version node < ''6.5''"
    using that by (simp_all add: cols one_decimal_fmt_f1)
  show "columns (csvRow cnum cluster node) ! 4 = ''N/A''" if "BriefNode.Version node = ''6.1.0''"
    using that by (simp add: cols)
  show "columns (csvRow cnum cluster node) ! 4 = fmt_f1 (Cores node)"
    and "one_decimal (columns (csvRow cnum cluster node) ! 4)"
    if "BriefNode.Version node = ''6.6.0''"
    using that by (simp_all add: cols one_decimal_fmt_f1)
qed

text \<open>
  The theorem on the two nodes of the small fleet: \<^verbatim>\<open>N/A\<close> for the node of version
  6.1.0 and \<^verbatim>\<open>8.0\<close> for the node of version 6.6.0 with its 8 cores.
\<close>

theorem cores_column_witness:
  "CHR 0x09 \<notin> set (UUID (newBriefCluster demo_pools demo_default)) \<and>
   CHR 0x09 \<notin> set (BriefNode.Name (newBriefNode demo_old_node)) \<and>
   CHR 0x09 \<notin> set (BriefNode.Name (newBriefNode demo_new_node)) \<and>
   BriefNode.Version (newBriefNode demo_old_node) = ''6.1.0'' \<and>
   columns (csvRow 0 (newBriefCluster demo_pools demo_default) (newBriefNode demo_old_node)) ! 4 =
     ''N/A'' \<and>
   BriefNode.Version (newBriefNode demo_new_node) = ''6.6.0'' \<and>
   columns (csvRow 0 (newBriefCluster demo_pools demo_default) (newBriefNode demo_new_node)) ! 4 =
     ''8.0''"
proof -
  have u: "CHR 0x09 \<notin> set (UUID (newBriefCluster demo_pools demo_default))"
    by (simp add: newBriefCluster_eq demo_pools_def)
  have n0: "CHR 0x09 \<notin> set (BriefNode.Name (newBriefNode demo_old_node))"
    and v0: "BriefNode.Version (newBriefNode demo_old_node) = ''6.1.0''"
    by (simp_all add: newBriefNode_def demo_old_node_def)
  have n1: "CHR 0x09 \<notin> set (BriefNode.Name (newBriefNode demo_new_node))"
    and v1: "BriefNode.Version (newBriefNode demo_new_node) = ''6.6.0''"
    by (simp_all add: newBriefNode_def demo_new_node_def)
  have c1: "fmt_f1 (Cores (newBriefNode demo_new_node)) = ''8.0''"
    by (simp add: newBriefNode_def demo_new_node_def float64_of_nat_def fmt_f1_def tenths_def
        decimal.simps)
  from cores_column [of "fst (summarize demo_env False (ClusterList.Clusters demo_clusters))" "newBriefCluster demo_pools demo_default"
      "newBriefNode demo_old_node" 0]
    cores_column [of "fst (summarize demo_env False (ClusterList.Clusters demo_clusters))" "newBriefCluster demo_pools demo_default"
      "newBriefNode demo_new_node" 0]
    u n0 n1 v0 v1 c1
  show ?thesis by simp
qed

subsection \<open>Memory in GiB\<close>

text \<open>A finite binary64 value divided by 1024 is a finite binary64 value.\<close>

lemma round_shift_le:
  assumes "m < 2 ^ 53" and "0 < k"
  shows "round_shift m k < 2 ^ 53"
proof -
  obtain j where k: "k = Suc j" using assms(2) by (cases k) auto
  have "(2::nat) ^ 1 \<le> 2 ^ k" by (rule power_increasing) (simp_all add: k)
  then have "m div 2 ^ k \<le> m div 2"
    by (intro div_le_mono2) simp_all
  also have "\<dots> < 2 ^ 52" using assms(1) by simp
  finally have "m div 2 ^ k + 1 < 2 ^ 53" by simp
  then show ?thesis
    by (simp add: round_shift_def Let_def)
qed

lemma div1024_finite64:
  assumes "finite64 x"
  shows "finite64 (div1024 x)"
proof (cases "- 1074 \<le> exponent x - 10")
  case True
  with assms show ?thesis by (simp add: finite64_def div1024_def)
next
  case False
  then have "0 < nat (- 1074 - (exponent x - 10))" by simp
  with assms have "round_shift (mantissa x) (nat (- 1074 - (exponent x - 10))) < 2 ^ 53"
    by (intro round_shift_le) (simp_all add: finite64_def)
  with False show ?thesis by (simp add: finite64_def div1024_def)
qed

text \<open>
  A division by 1024 is exact unless the quotient falls into the subnormal range: the
  value is then the value divided by 1024.
\<close>

lemma magnitude_powi: "magnitude x = of_nat (mantissa x) * power_int 2 (exponent x)"
  by (simp add: magnitude_def power_int_def power_one_over)

lemma negative_div1024: "negative (div1024 x) = negative x"
  by (simp add: div1024_def)

lemma valof_div1024:
  assumes "mantissa x = 0 \<or> - 1064 \<le> exponent x"
  shows "valof (div1024 x) = valof x / 1024"
proof -
  have "magnitude (div1024 x) = magnitude x / 1024"
  proof (cases "- 1064 \<le> exponent x")
    case True
    have "power_int (2::rat) (exponent x - 10) = power_int 2 (exponent x) / power_int 2 10"
      by (rule power_int_diff) simp
    then show ?thesis
      using True by (simp add: div1024_def magnitude_powi)
  next
    case False
    with assms have "mantissa x = 0" by simp
    then show ?thesis
      by (simp add: div1024_def magnitude_powi round_shift_def)
  qed
  then show ?thesis
    by (simp add: valof_def negative_div1024)
qed

lemma div1024_exponent:
  "- 1064 \<le> exponent x \<Longrightarrow> exponent (div1024 x) = exponent x - 10 \<and> mantissa (div1024 x) = mantissa x"
  by (simp add: div1024_def)

lemma div1024_zero: "mantissa x = 0 \<Longrightarrow> mantissa (div1024 x) = 0"
  by (simp add: div1024_def round_shift_def)

lemma valof_div1024_thrice:
  assumes "mantissa x = 0 \<or> - 1044 \<le> exponent x"
  shows "valof (div1024 (div1024 (div1024 x))) = valof x / 1024 / 1024 / 1024"
proof -
  have 1: "mantissa x = 0 \<or> - 1064 \<le> exponent x" using assms by auto
  have 2: "mantissa (div1024 x) = 0 \<or> - 1064 \<le> exponent (div1024 x)"
    using assms div1024_zero [of x] div1024_exponent [of x] by auto
  have 3: "mantissa (div1024 (div1024 x)) = 0 \<or> - 1064 \<le> exponent (div1024 (div1024 x))"
    using assms div1024_zero [of x] div1024_zero [of "div1024 x"]
      div1024_exponent [of x] div1024_exponent [of "div1024 x"] by auto
  show ?thesis
    by (simp only: valof_div1024 [OF 1] valof_div1024 [OF 2] valof_div1024 [OF 3])
qed

text \<open>
  C7. The \<^verbatim>\<open>RAM\<close> of a brief node is \<^verbatim>\<open>MemoryTotal\<close> divided by 1024 three times, for
  every node of a brief cluster. The divisions are exact, so that the value in GiB is the
  value in bytes divided by \<open>1024\<^sup>3\<close>, for zero and for every value whose exponent is at
  least \<open>-1044\<close> (every whole number of bytes is such a value). A memory total of
  17179869184 bytes gives 16, written \<^verbatim>\<open>16.0\<close>. In the CSV output the sixth column is the
  \<^verbatim>\<open>RAM\<close> written with one decimal place.
\<close>

theorem ram_in_gib:
  "BriefNode.RAM (newBriefNode nodeInfo) = div1024 (div1024 (div1024 (MemoryTotal nodeInfo)))
   \<and> map BriefNode.RAM (elems (BriefCluster.Nodes (newBriefCluster pools poolsDefaults))) =
       map (\<lambda>n. div1024 (div1024 (div1024 (MemoryTotal n)))) (elems (PoolsDefault.Nodes poolsDefaults))
   \<and> (mantissa (MemoryTotal nodeInfo) = 0 \<or> - 1044 \<le> exponent (MemoryTotal nodeInfo) \<longrightarrow>
        valof (BriefNode.RAM (newBriefNode nodeInfo)) =
          valof (MemoryTotal nodeInfo) / 1024 / 1024 / 1024)
   \<and> (MemoryTotal nodeInfo = float64_of_nat 17179869184 \<longrightarrow>
        valof (BriefNode.RAM (newBriefNode nodeInfo)) = 16 \<and>
        fmt_f1 (BriefNode.RAM (newBriefNode nodeInfo)) = ''16.0'')
   \<and> one_decimal (fmt_f1 (BriefNode.RAM node))
   \<and> (CHR 0x09 \<notin> set (UUID cluster) \<and> CHR 0x09 \<notin> set (BriefNode.Name node) \<longrightarrow>
        columns (csvRow cnum cluster node) ! 5 = fmt_f1 (BriefNode.RAM node))"
proof (intro conjI impI)
  show "BriefNode.RAM (newBriefNode nodeInfo) = div1024 (div1024 (div1024 (MemoryTotal nodeInfo)))"
    by (simp add: newBriefNode_def)
  show "map BriefNode.RAM (elems (BriefCluster.Nodes (newBriefCluster pools poolsDefaults))) =
       map (\<lambda>n. div1024 (div1024 (div1024 (MemoryTotal n)))) (elems (PoolsDefault.Nodes poolsDefaults))"
    by (simp add: newBriefCluster_eq elems_def newBriefNode_def)
  show "valof (BriefNode.RAM (newBriefNode nodeInfo)) = valof (MemoryTotal nodeInfo) / 1024 / 1024 / 1024"
    if "mantissa (MemoryTotal nodeInfo) = 0 \<or> - 1044 \<le> exponent (MemoryTotal nodeInfo)"
    using valof_div1024_thrice [OF that] by (simp add: newBriefNode_def)
  show "valof (BriefNode.RAM (newBriefNode nodeInfo)) = 16"
    if "MemoryTotal nodeInfo = float64_of_nat 17179869184"
    using that
    by (simp add: newBriefNode_def float64_of_nat_def div1024_def valof_def magnitude_def)
  show "fmt_f1 (BriefNode.RAM (newBriefNode nodeInfo)) = ''16.0''"
    if "MemoryTotal nodeInfo = float64_of_nat 17179869184"
    using that
    by (simp add: newBriefNode_def float64_of_nat_def div1024_def fmt_f1_def tenths_def
        round_shift_def decimal.simps)
  show "one_decimal (fmt_f1 (BriefNode.RAM node))"
    by (rule one_decimal_fmt_f1)
  show "columns (csvRow cnum cluster node) ! 5 = fmt_f1 (BriefNode.RAM node)"
    if "CHR 0x09 \<notin> set (UUID cluster) \<and> CHR 0x09 \<notin> set (BriefNode.Name node)"
    using that by (simp add: columns_csvRow)
qed

text \<open>The theorem on the node of the small fleet that has 17179869184 bytes of memory.\<close>

theorem ram_in_gib_witness:
  "MemoryTotal demo_old_node = float64_of_nat 17179869184 \<and>
   - 1044 \<le> exponent (MemoryTotal demo_old_node) \<and>
   valof (MemoryTotal demo_old_node) = 17179869184 \<and>
   valof (BriefNode.RAM (newBriefNode demo_old_node)) = 16 \<and>
   fmt_f1 (BriefNode.RAM (newBriefNode demo_old_node)) = ''16.0'' \<and>
   CHR 0x09 \<notin> set (UUID (newBriefCluster demo_pools demo_default)) \<and>
   CHR 0x09 \<notin> set (BriefNode.Name (newBriefNode demo_old_node)) \<and>
   columns (csvRow 0 (newBriefCluster demo_pools demo_default) (newBriefNode demo_old_node)) ! 5 =
     ''16.0''"
proof -
  have m: "MemoryTotal demo_old_node = float64_of_nat 17179869184"
    by (simp add: demo_old_node_def)
  have e: "- 1044 \<le> exponent (MemoryTotal demo_old_node)"
    and v: "valof (MemoryTotal demo_old_node) = 17179869184"
    by (simp_all add: demo_old_node_def float64_of_nat_def valof_def magnitude_def)
  have u: "CHR 0x09 \<notin> set (UUID (newBriefCluster demo_pools demo_default))"
    by (simp add: newBriefCluster_eq demo_pools_def)
  have n0: "CHR 0x09 \<notin> set (BriefNode.Name (newBriefNode demo_old_node))"
    by (simp add: newBriefNode_def demo_old_node_def)
  note gib = ram_in_gib [of demo_old_node demo_pools demo_default "newBriefNode demo_old_node"
      "newBriefCluster demo_pools demo_default" 0]
  from gib m have r: "valof (BriefNode.RAM (newBriefNode demo_old_node)) = 16"
    and f: "fmt_f1 (BriefNode.RAM (newBriefNode demo_old_node)) = ''16.0''"
    by blast+
  from gib u n0 have "columns (csvRow 0 (newBriefCluster demo_pools demo_default)
       (newBriefNode demo_old_node)) ! 5 = fmt_f1 (BriefNode.RAM (newBriefNode demo_old_node))"
    by blast
  with f have c: "columns (csvRow 0 (newBriefCluster demo_pools demo_default)
       (newBriefNode demo_old_node)) ! 5 = ''16.0''"
    by (simp only:)
  show ?thesis
    by (intro conjI) (rule m e v u n0 r f c)+
qed

subsection \<open>Cores of old servers in the JSON output\<close>

text \<open>
  C5 fails in the JSON output. The node of version 6.1.0 of the small fleet reports no
  number of cores, so \<^verbatim>\<open>Cores\<close> of its brief node is the zero value; the JSON value of
  the brief record, which \<^verbatim>\<open>main\<close> hands to \<^verbatim>\<open>json.MarshalIndent\<close>, has
  \<^verbatim>\<open>cpu_cores_available\<close> 0 for it, where the line of the CSV output for the same node
  has \<^verbatim>\<open>N/A\<close>.
\<close>

theorem brief_json_reports_zero_cores:
  "NodeInfo.Version demo_old_node = ''6.1.0'' \<and> ''6.1.0'' < ''6.5'' \<and>
   CPU_cores_available (SystemStats demo_old_node) = zero64 \<and> valof zero64 = 0 \<and>
   marshalRecord demo_env
     (Clusters (fst (summarize demo_env False (ClusterList.Clusters demo_clusters))) ! 0) =
     JObject [(''nodes'',
               JArray [JObject [(''cpu_cores_available'', JFloat zero64),
                                (''mem_total'', JFloat (Float64 False 17179869184 (- 30))),
                                (''hostname'', JString ''b:8091''),
                                (''version'', JString ''6.1.0'')],
                       JObject [(''cpu_cores_available'', JFloat (Float64 False 8 0)),
                                (''mem_total'', JFloat (Float64 False 8589934592 (- 30))),
                                (''hostname'', JString ''c:8091''),
                                (''version'', JString ''6.6.0'')]]),
              (''cluster_size'', JInt 2), (''cluster_uuid'', JString ''c0ffee'')] \<and>
   csvRow 0 (newBriefCluster demo_pools demo_default) (newBriefNode demo_old_node) =
     ''0'' @ tab @ ''c0ffee'' @ tab @ ''2'' @ tab @ ''b:8091'' @ tab @ ''N/A'' @ tab @ ''16.0'' @
     newline"
  by (simp add: run_defs demo_defs demo_old_node_def demo_new_node_def marshalBriefCluster_def
      marshalBriefNode_def marshalSlice_def newBriefNode_def fillNodes.simps zeroBriefNode_def
      float64_of_nat_def div1024_def zero64_def valof_def magnitude_def csvRow_def fmt_d_def
      fmt_f1_def tenths_def round_shift_def decimal.simps)

subsection \<open>The flags\<close>

text \<open>
  C6. With both \<^verbatim>\<open>--full\<close> and \<^verbatim>\<open>--csv\<close>, \<^verbatim>\<open>main\<close> returns before it reads the
  configuration, having sent no request: it prints that the CSV format is not available
  for full reports, or, when \<^verbatim>\<open>--help\<close> is given or no configuration file is named, the
  usage text (that test comes first).
\<close>

theorem full_and_csv_rejected:
  "FULL f \<and> CSV f \<Longrightarrow>
   fst (main e f) = (if HELP f \<or> CONFIG_FILE f = [] then Usage else CSVNotAvailable) \<and>
   snd (main e f) = []"
  by (simp add: main_def)

text \<open>The theorem on a run with a configuration file and both flags.\<close>

theorem full_and_csv_rejected_witness:
  "FULL (demo_flags\<lparr>FULL := True, CSV := True\<rparr>) \<and> CSV (demo_flags\<lparr>FULL := True, CSV := True\<rparr>) \<and>
   main demo_env (demo_flags\<lparr>FULL := True, CSV := True\<rparr>) = (CSVNotAvailable, [])"
  using full_and_csv_rejected [of "demo_flags\<lparr>FULL := True, CSV := True\<rparr>" demo_env]
  by (simp add: demo_flags_def prod_eq_iff)

subsection \<open>Certificates of an unknown authority\<close>

text \<open>
  The case of the type switch that wraps an \<^verbatim>\<open>x509.UnknownAuthorityError\<close>, so that its
  message ends with the guidance on \<^verbatim>\<open>--no-ssl-verify\<close>, and the case before it, which
  returns what a \<^verbatim>\<open>*url.Error\<close> wraps as it is.
\<close>

lemma executeRequest_bare_unknown_authority:
  assumes "Do e (length reqs) req = Inl (x509_Error x509_UnknownAuthorityError msg)"
  shows "fst (executeRequest e req reqs) =
           Inl (UnknownAuthorityError (x509_Error x509_UnknownAuthorityError msg)) \<and>
         Error (UnknownAuthorityError (x509_Error x509_UnknownAuthorityError msg)) =
           msg @ no_ssl_verify_guidance"
  using assms by (simp add: executeRequest_def)

lemma executeRequest_url_error:
  assumes "Do e (length reqs) req = Inl (url_Error msg err)"
  shows "fst (executeRequest e req reqs) = Inl err"
  using assms by (simp add: executeRequest_def)

text \<open>
  C8 fails on the error that \<^verbatim>\<open>client.Do\<close> returns for node \<^verbatim>\<open>f\<close> of the small fleet:
  the \<^verbatim>\<open>x509.UnknownAuthorityError\<close> inside the \<^verbatim>\<open>*url.Error\<close> is returned as it is, and
  its message has no guidance.
\<close>

theorem unknown_authority_without_guidance:
  "Do demo_env 0 \<lparr>Method = ''GET'', URL = ''https://f:18091/pools'',
                  BasicAuth = (''Administrator'', ''password1'')\<rparr> =
     Inl (url_Error ''Get https://f:18091/pools: x509: certificate signed by unknown authority''
            (x509_Error x509_UnknownAuthorityError ''x509: certificate signed by unknown authority'')) \<and>
   fst (executeRequest demo_env
          \<lparr>Method = ''GET'', URL = ''https://f:18091/pools'',
           BasicAuth = (''Administrator'', ''password1'')\<rparr> []) =
     Inl (x509_Error x509_UnknownAuthorityError ''x509: certificate signed by unknown authority'') \<and>
   Error (x509_Error x509_UnknownAuthorityError ''x509: certificate signed by unknown authority'') =
     ''x509: certificate signed by unknown authority'' \<and>
   fst (GetPoolsData demo_env (CreateRestClient ''https://f:18091'' ''Administrator'' ''password1'') []) =
     Inl (x509_Error x509_UnknownAuthorityError ''x509: certificate signed by unknown authority'')"
  by (simp add: GetPoolsData_def executeGet_def executeRequest_def demo_env_def demo_Do_def
      demo_untrusted_def CreateRestClient_def Let_def)

subsection \<open>The error record in the JSON output\<close>

text \<open>
  C10. When every node of a cluster fails, the record of the cluster is an error record
  that holds the whole configured cluster, and its JSON value, an element of the array
  \<^verbatim>\<open>clusters\<close> of the report, has the password of the cluster under the key \<^verbatim>\<open>pass\<close>,
  beside the login and the list of nodes.
\<close>

theorem error_record_embeds_password:
  assumes "i < length (elems clusters)"
    and "allNodesFail e full i (elems clusters ! i) (reached e full clusters i)"
  shows "\<exists>msg.
     Clusters (fst (summarize e full clusters)) ! i =
       ErrorRecord \<lparr>TheCluster = elems clusters ! i, ErrMsg = msg\<rparr> \<and>
     marshalRecord e (Clusters (fst (summarize e full clusters)) ! i) =
       JObject [(''error_with_cluster'',
                 JObject [(''login'', JString (Login (elems clusters ! i))),
                          (''pass'', JString (Pass (elems clusters ! i))),
                          (''nodes'', marshalSlice JString (Cluster.Nodes (elems clusters ! i)))]),
                (''error_message'', JString msg)] \<and>
     marshalSummaryInfo e (fst (summarize e full clusters)) =
       JObject [(''#clusters'', JInt (NumClusters (fst (summarize e full clusters)))),
                (''#nodes'', JInt (TotalNumNodes (fst (summarize e full clusters)))),
                (''#nodeVersions'',
                   marshalMap (SummaryInfo.NodeVersions (fst (summarize e full clusters)))),
                (''clusters'',
                   JArray (map (marshalRecord e) (Clusters (fst (summarize e full clusters)))))] \<and>
     map (marshalRecord e) (Clusters (fst (summarize e full clusters))) ! i =
       marshalRecord e (Clusters (fst (summarize e full clusters)) ! i)"
proof -
  from summarize_nth [OF assms(1), of e full] assms(2)
  obtain msg where rec: "Clusters (fst (summarize e full clusters)) ! i =
       ErrorRecord \<lparr>TheCluster = elems clusters ! i, ErrMsg = msg\<rparr>"
    by auto
  have "i < length (Clusters (fst (summarize e full clusters)))"
    using assms(1) by (simp add: summarize_length)
  then have "map (marshalRecord e) (Clusters (fst (summarize e full clusters))) ! i =
       marshalRecord e (Clusters (fst (summarize e full clusters)) ! i)"
    by simp
  with rec show ?thesis
    by (intro exI [of _ msg])
      (simp add: marshalClusterError_def marshalCluster_def marshalSummaryInfo_def)
qed

text \<open>The theorem on the second cluster of the small fleet, whose two nodes fail.\<close>

theorem error_record_embeds_password_witness:
  "(1::nat) < length (elems (ClusterList.Clusters demo_clusters)) \<and>
   allNodesFail demo_env False 1 (elems (ClusterList.Clusters demo_clusters) ! 1)
     (reached demo_env False (ClusterList.Clusters demo_clusters) 1) \<and>
   (\<exists>msg. marshalRecord demo_env
            (Clusters (fst (summarize demo_env False (ClusterList.Clusters demo_clusters))) ! 1) =
      JObject [(''error_with_cluster'',
                JObject [(''login'', JString ''Administrator''),
                         (''pass'', JString ''password2''),
                         (''nodes'', JArray [JString ''http://a:8091'', JString ''http://d:8091''])]),
               (''error_message'', JString msg)])"
proof -
  have n: "(1::nat) < length (elems (ClusterList.Clusters demo_clusters))"
    by (simp add: demo_clusters_def elems_def)
  have f: "allNodesFail demo_env False 1 (elems (ClusterList.Clusters demo_clusters) ! 1)
     (reached demo_env False (ClusterList.Clusters demo_clusters) 1)"
    by (simp add: run_defs demo_defs)
  have c: "elems (ClusterList.Clusters demo_clusters) ! 1 =
     \<lparr>Login = ''Administrator'', Pass = ''password2'',
      Cluster.Nodes = Some [''http://a:8091'', ''http://d:8091'']\<rparr>"
    by (simp add: demo_clusters_def elems_def)
  from error_record_embeds_password [OF n f]
  obtain msg where "marshalRecord demo_env
            (Clusters (fst (summarize demo_env False (ClusterList.Clusters demo_clusters))) ! 1) =
       JObject [(''error_with_cluster'',
                 JObject [(''login'', JString (Login (elems (ClusterList.Clusters demo_clusters) ! 1))),
                          (''pass'', JString (Pass (elems (ClusterList.Clusters demo_clusters) ! 1))),
                          (''nodes'', marshalSlice JString
                             (Cluster.Nodes (elems (ClusterList.Clusters demo_clusters) ! 1)))]),
                (''error_message'', JString msg)]"
    by blast
  then have "marshalRecord demo_env
            (Clusters (fst (summarize demo_env False (ClusterList.Clusters demo_clusters))) ! 1) =
      JObject [(''error_with_cluster'',
                JObject [(''login'', JString ''Administrator''),
                         (''pass'', JString ''password2''),
                         (''nodes'', JArray [JString ''http://a:8091'', JString ''http://d:8091''])]),
               (''error_message'', JString msg)]"
    unfolding c by (simp add: marshalSlice_def)
  with n f show ?thesis by blast
qed


end
